theory Spec2Isabelle
  imports Complex_Main "HOL-Library.Sublist" "HOL-Library.Multiset"
    "HOL-Library.Char_ord" "HOL-Library.List_Lexorder"
begin

section \<open>Errors\<close>

text \<open>
  The notebooks contain no \<^verbatim>\<open>try\<close>/\<^verbatim>\<open>except\<close>; every exception ends the run. An
  exception is a value of type \<open>error\<close>, and a computation that may raise returns
  \<open>error + 'a\<close> with \<open>Inl\<close> for the exception.

  \<^item> \<open>ZeroDivisionError\<close>: Python's own \<^verbatim>\<open>/\<close> and \<^verbatim>\<open>**\<close> on \<^verbatim>\<open>int\<close> and \<^verbatim>\<open>float\<close>;
  \<^item> \<open>KeyError\<close>: a label that a table does not have;
  \<^item> \<open>AttributeError\<close>: a column read as an attribute that the table does not have;
  \<^item> \<open>ValueError\<close>: a reshaping or an index assignment that does not fit;
  \<^item> \<open>ExternalError\<close>: whatever a call into the optimisation library, the solver, the
    download or the plotting library raises, identified by its message.
\<close>

datatype error =
    ZeroDivisionError
  | KeyError string
  | AttributeError string
  | ValueError
  | ExternalError string

section \<open>Floating-point numbers\<close>

text \<open>
  A Python \<^verbatim>\<open>float\<close> and a numpy \<^verbatim>\<open>float64\<close> are IEEE 754 binary64 numbers. A finite
  one is modelled by the real number it denotes, and an arithmetic operation by the exact
  operation followed by a rounding. The rounding is a parameter of every definition that
  computes with floats:
  \<^item> \<open>f64_round\<close> is the rounding of the machine, to the nearest number with a 53-bit
    significand, ties to the even significand;
  \<^item> \<open>exact\<close> rounds nothing: it gives the arithmetic of the real numbers.
  The exponent range is not bounded: overflow and underflow are outside the model.
\<close>

type_synonym rounding = "real \<Rightarrow> real"

definition exact :: rounding where
  "exact x = x"

text \<open>The number of binary digits of a natural number.\<close>

fun bit_length :: "nat \<Rightarrow> nat" where
  "bit_length n = (if n = 0 then 0 else Suc (bit_length (n div 2)))"

declare bit_length.simps [simp del]

definition pow2 :: "int \<Rightarrow> real" where
  "pow2 k = (if 0 \<le> k then 2 ^ nat k else 1 / 2 ^ nat (- k))"

text \<open>For \<open>x > 0\<close>, the exponent \<open>e\<close> with \<open>2^e \<le> x < 2^(e+1)\<close>.\<close>

definition f64_exponent :: "real \<Rightarrow> int" where
  "f64_exponent x =
     (if 1 \<le> x then int (bit_length (nat \<lfloor>x\<rfloor>)) - 1
      else - int (bit_length (nat \<lceil>1 / x\<rceil> - 1)))"

definition round_half_even :: "real \<Rightarrow> int" where
  "round_half_even q =
     (let f = \<lfloor>q\<rfloor> in
      if q - of_int f < 1 / 2 then f
      else if 1 / 2 < q - of_int f then f + 1
      else if even f then f else f + 1)"

definition f64_round :: rounding where
  "f64_round x =
     (if x = 0 then 0
      else let e = f64_exponent \<bar>x\<bar>;
               m = round_half_even (\<bar>x\<bar> * pow2 (52 - e))
           in sgn x * of_int m * pow2 (e - 52))"

subsection \<open>Python's float operators\<close>

text \<open>
  \<^verbatim>\<open>a / b\<close> on Python numbers raises ZeroDivisionError for a zero divisor.
  \<^verbatim>\<open>b ** n\<close> with a float base and an int exponent: CPython answers itself when the
  exponent is 0, when the base is 0 (raising for a negative exponent) and when the base is
  1 or -1; otherwise it calls the C library's \<^verbatim>\<open>pow\<close>, which is taken to round
  correctly.
\<close>

definition py_div :: "rounding \<Rightarrow> real \<Rightarrow> real \<Rightarrow> error + real" where
  "py_div rnd x y = (if y = 0 then Inl ZeroDivisionError else Inr (rnd (x / y)))"


subsection \<open>numpy's float64 operators\<close>

text \<open>
  numpy's operators never raise: where Python raises they return an infinity or NaN and
  warn. A numpy value is \<open>Some x\<close> for a finite number and \<open>None\<close> for one that is not
  finite (NaN, which is also how pandas marks a missing cell, or an infinity). An
  operation on a value that is not finite gives one that is not finite, except that
  \<^verbatim>\<open>x ** 0\<close> and \<^verbatim>\<open>1 ** y\<close> are 1. (IEEE arithmetic has one more exception, a finite
  number divided by an infinity, which the model does not distinguish.)
\<close>

type_synonym npfloat = "real option"

definition np_add :: "rounding \<Rightarrow> npfloat \<Rightarrow> npfloat \<Rightarrow> npfloat" where
  "np_add rnd a b =
     (case (a, b) of (Some x, Some y) \<Rightarrow> Some (rnd (x + y)) | _ \<Rightarrow> None)"

definition np_sub :: "rounding \<Rightarrow> npfloat \<Rightarrow> npfloat \<Rightarrow> npfloat" where
  "np_sub rnd a b =
     (case (a, b) of (Some x, Some y) \<Rightarrow> Some (rnd (x - y)) | _ \<Rightarrow> None)"

definition np_mul :: "rounding \<Rightarrow> npfloat \<Rightarrow> npfloat \<Rightarrow> npfloat" where
  "np_mul rnd a b =
     (case (a, b) of (Some x, Some y) \<Rightarrow> Some (rnd (x * y)) | _ \<Rightarrow> None)"

definition np_div :: "rounding \<Rightarrow> npfloat \<Rightarrow> npfloat \<Rightarrow> npfloat" where
  "np_div rnd a b =
     (case (a, b) of
        (Some x, Some y) \<Rightarrow> if y = 0 then None else Some (rnd (x / y))
      | _ \<Rightarrow> None)"

definition np_pow :: "rounding \<Rightarrow> npfloat \<Rightarrow> npfloat \<Rightarrow> npfloat" where
  "np_pow rnd a b =
     (if b = Some 0 \<or> a = Some 1 then Some 1
      else case (a, b) of
        (Some x, Some y) \<Rightarrow>
          if y = of_int \<lfloor>y\<rfloor>
          then (if x = 0 \<and> y < 0 then None else Some (rnd (x powi \<lfloor>y\<rfloor>)))
          else if 0 < x then Some (rnd (x powr y))
          else if x = 0 \<and> 0 < y then Some 0
          else None
      | _ \<Rightarrow> None)"

subsection \<open>The operators an expression is evaluated with\<close>

text \<open>
  Python finds the meaning of \<^verbatim>\<open>+\<close>, \<^verbatim>\<open>-\<close>, \<^verbatim>\<open>/\<close> and \<^verbatim>\<open>**\<close> in the type of the operands.
  The record holds the operators of one number type: \<open>'v\<close> is the type of the values and
  \<open>'e\<close> the type of an exponent; \<open>lit\<close> reads a float literal.
\<close>

record ('v, 'e) arith =
  lit :: "real \<Rightarrow> 'v"
  plus_op :: "'v \<Rightarrow> 'v \<Rightarrow> 'v"
  minus_op :: "'v \<Rightarrow> 'v \<Rightarrow> 'v"
  div_op :: "'v \<Rightarrow> 'v \<Rightarrow> error + 'v"
  pow_op :: "'v \<Rightarrow> 'e \<Rightarrow> error + 'v"


text \<open>numpy \<^verbatim>\<open>float64\<close> scalars, as the cells of a pandas table are.\<close>

definition numpy_float64 :: "rounding \<Rightarrow> (npfloat, npfloat) arith" where
  "numpy_float64 rnd =
     \<lparr>lit = (\<lambda>x. Some (rnd x)),
      plus_op = np_add rnd,
      minus_op = np_sub rnd,
      div_op = (\<lambda>a b. Inr (np_div rnd a b)),
      pow_op = (\<lambda>a b. Inr (np_pow rnd a b))\<rparr>"

section \<open>The annuity factor\<close>

text \<open>
  \<^verbatim>\<open>
  def annuity(r: float, n: int) -> float:
      return r / (1.0 - 1.0 / (1.0 + r) ** n)
  \<close>
  The expression, in Python's order of evaluation, over the operators of the arguments'
  type. Called as its signature says, that is \<open>python_float\<close>; \<^verbatim>\<open>costs.apply\<close> calls it
  with the \<^verbatim>\<open>float64\<close> cells of a row, that is \<open>numpy_float64\<close>.
\<close>

definition annuity :: "('v, 'e) arith \<Rightarrow> 'v \<Rightarrow> 'e \<Rightarrow> error + 'v" where
  "annuity A r n =
     (case pow_op A (plus_op A (lit A 1) r) n of
        Inl e \<Rightarrow> Inl e
      | Inr p \<Rightarrow>
          (case div_op A (lit A 1) p of
             Inl e \<Rightarrow> Inl e
           | Inr q \<Rightarrow> div_op A r (minus_op A (lit A 1) q)))"

section \<open>The price-duration curve\<close>

text \<open>
  A pandas Series is a list of (label, value) pairs in row order. A price is a finite
  number: NaN prices are outside the model. Of the network object, which belongs to the
  optimisation library, the notebooks read and write four tables directly; they are the
  fields of the record, and everything else the library keeps is in the record's
  extension.

  \<^item> \<open>buses_t_marginal_price\<close>: \<^verbatim>\<open>n.buses_t.marginal_price\<close>, one column of prices per
    bus, indexed by snapshot;
  \<^item> \<open>generators\<close>: the numeric cells of \<^verbatim>\<open>n.generators\<close>, by generator and attribute;
  \<^item> \<open>snapshot_weightings\<close>: \<^verbatim>\<open>n.snapshot_weightings\<close>, by (snapshot, column);
  \<^item> \<open>generators_t_p\<close>: \<^verbatim>\<open>n.generators_t.p\<close>, one dispatch column per generator.
\<close>

type_synonym 'i series = "('i \<times> real) list"

record 's network =
  buses_t_marginal_price :: "string \<rightharpoonup> 's series"
  generators :: "string \<rightharpoonup> (string \<rightharpoonup> npfloat)"
  snapshot_weightings :: "'s \<times> string \<rightharpoonup> real"
  generators_t_p :: "string \<rightharpoonup> 's series"

text \<open>
  \<^verbatim>\<open>.sort_values(ascending=False)\<close>: the rows in non-increasing order of value, each
  row keeping its label. (pandas' default sort is not stable; the order of rows with
  equal values is of no consequence below, because the labels are dropped next.)
\<close>

definition sort_values_desc :: "'i series \<Rightarrow> 'i series" where
  "sort_values_desc s = sort_key (\<lambda>p. - snd p) s"

text \<open>\<^verbatim>\<open>.reset_index(drop=True)\<close>: the labels are replaced by the positions 0, 1, ...\<close>

definition reset_index_drop :: "'i series \<Rightarrow> nat series" where
  "reset_index_drop s = zip [0..<length s] (map snd s)"

text \<open>
  \<^verbatim>\<open>np.arange(start, stop, step)\<close> with \<^verbatim>\<open>int\<close> bounds and a \<^verbatim>\<open>float\<close> step. numpy
  computes the number of values as the ceiling of the float quotient
  \<^verbatim>\<open>(stop - start) / step\<close> (none when that is not positive; a zero step raises in the
  division). It stores \<^verbatim>\<open>start\<close> and \<^verbatim>\<open>start + step\<close> as the first two values, takes
  their difference as \<open>delta\<close> and fills in \<^verbatim>\<open>start + i * delta\<close> for the others.
\<close>

definition arange :: "rounding \<Rightarrow> int \<Rightarrow> int \<Rightarrow> real \<Rightarrow> error + real list" where
  "arange rnd start stop step =
     (case py_div rnd (rnd (of_int (stop - start))) step of
        Inl e \<Rightarrow> Inl e
      | Inr q \<Rightarrow>
          let first = rnd (of_int start);
              second = rnd (first + step);
              delta = rnd (second - first)
          in Inr (map (\<lambda>i. if i = 0 then first
                             else if i = 1 then second
                             else rnd (first + rnd (real i * delta)))
                      [0..<nat \<lceil>q\<rceil>]))"

text \<open>\<^verbatim>\<open>s.index = idx\<close>: the new labels must be as many as the rows.\<close>

definition set_index :: "'j list \<Rightarrow> 'i series \<Rightarrow> error + 'j series" where
  "set_index idx s =
     (if length idx \<noteq> length s then Inl ValueError
      else Inr (zip idx (map snd s)))"

text \<open>
  \<^verbatim>\<open>
  def get_price_duration(n: pypsa.Network, bus: str = "electricity") -> pd.Series:
      s = (
          n.buses_t.marginal_price[bus]
          .sort_values(ascending=False)
          .reset_index(drop=True)
      )
      s.index = np.arange(0, 100, 100 / len(s.index))
      return s
  \<close>
  \<^verbatim>\<open>100 / len(s.index)\<close> divides two Python \<^verbatim>\<open>int\<close>s: it raises ZeroDivisionError for
  an empty series and gives the rounded quotient otherwise.
\<close>

definition get_price_duration ::
  "rounding \<Rightarrow> ('s, 'z) network_scheme \<Rightarrow> string \<Rightarrow> error + real series" where
  "get_price_duration rnd n bus =
     (case buses_t_marginal_price n bus of
        None \<Rightarrow> Inl (KeyError bus)
      | Some col \<Rightarrow>
          let s = reset_index_drop (sort_values_desc col) in
          (case py_div rnd 100 (real (length s)) of
             Inl e \<Rightarrow> Inl e
           | Inr step \<Rightarrow>
               (case arange rnd 0 100 step of
                  Inl e \<Rightarrow> Inl e
                | Inr idx \<Rightarrow> set_index idx s)))"

section \<open>The cost table\<close>

text \<open>
  \<^verbatim>\<open>
  costs = pd.read_csv(url, index_col=[0, 1])
  costs.loc[costs.unit.str.contains("/kW"), "value"] *= 1e3
  costs = costs.value.unstack().fillna({"discount rate": 0.07, "lifetime": 20, "FOM": 0})
  \<close>
  The downloaded table has one row per (technology, parameter), with a value and a unit.
  The value may be missing (NaN); a row without a unit is outside the model.
\<close>

record cost_row =
  technology :: string
  parameter :: string
  row_value :: npfloat
  row_unit :: string

text \<open>
  \<^verbatim>\<open>str.contains("/kW")\<close>: the pattern has no regular-expression operator, so the
  search is for the substring.
\<close>

fun str_contains :: "string \<Rightarrow> string \<Rightarrow> bool" where
  "str_contains pat [] = (pat = [])"
| "str_contains pat (c # cs) = (prefix pat (c # cs) \<or> str_contains pat cs)"

definition scale_kW :: "rounding \<Rightarrow> cost_row list \<Rightarrow> cost_row list" where
  "scale_kW rnd rows =
     map (\<lambda>r. if str_contains ''/kW'' (row_unit r)
               then r\<lparr>row_value := np_mul rnd (row_value r) (Some (rnd 1000))\<rparr>
               else r) rows"

text \<open>
  The wide table: its row labels, its column labels and its cells. A cell outside
  \<open>index \<times> columns\<close> does not exist; a cell inside holds a number or \<open>None\<close> (NaN).
\<close>

record frame =
  index :: "string list"
  columns :: "string list"
  cells :: "string \<Rightarrow> string \<Rightarrow> npfloat"

text \<open>
  \<^verbatim>\<open>costs.value.unstack()\<close>: technologies become rows, parameters columns, both
  sorted; a combination the long table does not have is NaN. pandas refuses to reshape
  an index with duplicate entries.
\<close>

definition unstack :: "cost_row list \<Rightarrow> error + frame" where
  "unstack rows =
     (if \<not> distinct (map (\<lambda>r. (technology r, parameter r)) rows) then Inl ValueError
      else Inr \<lparr>index = sort (remdups (map technology rows)),
                columns = sort (remdups (map parameter rows)),
                cells = (\<lambda>t p. case find (\<lambda>r. technology r = t \<and> parameter r = p) rows of
                                  None \<Rightarrow> None
                                | Some r \<Rightarrow> row_value r)\<rparr>)"

text \<open>\<^verbatim>\<open>.fillna({column: default, ...})\<close>: a NaN cell of a named column gets its default.\<close>

definition fillna :: "(string \<times> real) list \<Rightarrow> frame \<Rightarrow> frame" where
  "fillna defaults f =
     f\<lparr>cells := (\<lambda>t p. if t \<in> set (index f) \<and> p \<in> set (columns f) \<and> cells f t p = None
                        then map_of defaults p
                        else cells f t p)\<rparr>"

definition cost_defaults :: "rounding \<Rightarrow> (string \<times> real) list" where
  "cost_defaults rnd =
     [(''discount rate'', rnd (7 / 100)), (''lifetime'', rnd 20), (''FOM'', rnd 0)]"

definition prepare_costs :: "rounding \<Rightarrow> cost_row list \<Rightarrow> error + frame" where
  "prepare_costs rnd rows =
     (case unstack (scale_kW rnd rows) of
        Inl e \<Rightarrow> Inl e
      | Inr f \<Rightarrow> Inr (fillna (cost_defaults rnd) f))"

section \<open>The notebooks\<close>

subsection \<open>Values passed to the library\<close>

text \<open>
  A keyword argument of \<^verbatim>\<open>n.add\<close> is a number, a string, a truth value, a series over
  the snapshots, or a list of strings.
\<close>

datatype 's arg =
    Num npfloat
  | Str string
  | Flag bool
  | Ser "('s \<times> npfloat) list"
  | Strs "string list"

type_synonym 's kwargs = "(string \<times> 's arg) list"

text \<open>
  The time-series table of the download: the snapshots and, per column name, one value
  per snapshot. A result of the statistics module: values by (component, carrier).
\<close>

record 's table =
  labels :: "'s list"
  column :: "string \<rightharpoonup> npfloat list"

type_synonym stat = "((string \<times> string) \<times> npfloat) list"

text \<open>What is handed to the plotting library.\<close>

datatype 's plotted =
    Curve string "real series"
  | Dispatch "'s series"
  | Prices "string \<rightharpoonup> 's series"
  | Figure string

subsection \<open>The calls that leave the repository\<close>

text \<open>
  The download, the optimisation library with its solver and its statistics module, and
  the plotting library are not code of the notebooks. Each call is a function that
  returns its result or the exception it raises; a run of a notebook is a run against one
  such record. \<open>optimize\<close> takes the solver name when one is given; \<open>statistics\<close> takes
  the name of the accessor and its keyword arguments.
\<close>

record ('s, 'z) ext =
  read_csv_costs :: "string \<Rightarrow> error + cost_row list"
  read_csv_ts :: "string \<Rightarrow> error + 's table"
  new_network :: "error + ('s, 'z) network_scheme"
  model_energy :: "error + ('s, 'z) network_scheme"
  add :: "('s, 'z) network_scheme \<Rightarrow> string \<Rightarrow> string list \<Rightarrow> 's kwargs
          \<Rightarrow> error + ('s, 'z) network_scheme"
  remove :: "('s, 'z) network_scheme \<Rightarrow> string \<Rightarrow> string \<Rightarrow> error + ('s, 'z) network_scheme"
  set_snapshots :: "('s, 'z) network_scheme \<Rightarrow> 's list \<Rightarrow> error + ('s, 'z) network_scheme"
  optimize :: "('s, 'z) network_scheme \<Rightarrow> string option \<Rightarrow> error + ('s, 'z) network_scheme"
  statistics :: "('s, 'z) network_scheme \<Rightarrow> string \<Rightarrow> 's kwargs \<Rightarrow> error + stat"
  plot :: "'s plotted \<Rightarrow> error + unit"

subsection \<open>The variables of a notebook\<close>

record ('s, 'z) state =
  var_costs :: frame
  var_a :: "(string \<times> npfloat) list"
  var_ts :: "'s table"
  var_n :: "('s, 'z) network_scheme"
  var_capacities :: "(string \<times> stat) list"

subsection \<open>Statements\<close>

text \<open>
  A notebook is the list of its statements in the order of the cells. A statement is a
  function from the variables to the variables, or to the exception it raises, together
  with a tag that says how the statement treats the network:
  \<^item> \<open>Construct\<close>: it makes the network object (\<^verbatim>\<open>pypsa.Network()\<close>,
    \<^verbatim>\<open>pypsa.examples.model_energy()\<close>);
  \<^item> \<open>Add\<close>, \<open>Remove\<close>, \<open>Set_snapshots\<close>, \<open>Optimize\<close>: it calls that method of the network;
  \<^item> \<open>Assign table row col\<close>: it assigns to cells of a table of the network directly;
  \<^item> \<open>Report\<close>: it plots or tabulates;
  \<^item> \<open>Compute\<close>: it works on the cost table or the time series.
\<close>

datatype tag =
    Construct
  | Add string "string list"
  | Remove string string
  | Set_snapshots
  | Optimize
  | Assign string string string
  | Report
  | Compute

type_synonym ('s, 'z) statement =
  "tag \<times> (('s, 'z) ext \<Rightarrow> ('s, 'z) state \<Rightarrow> error + ('s, 'z) state)"

text \<open>
  Running the statements in order. Nothing catches an exception: the first one ends the
  run and is its result.
\<close>

fun run :: "('s, 'z) ext \<Rightarrow> ('s, 'z) statement list \<Rightarrow> ('s, 'z) state
            \<Rightarrow> error + ('s, 'z) state" where
  "run env [] s = Inr s"
| "run env ((t, f) # rest) s =
     (case f env s of
        Inl e \<Rightarrow> Inl e
      | Inr s' \<Rightarrow> run env rest s')"

text \<open>Sequencing of a step that may raise with what follows it.\<close>

definition and_then :: "error + 'a \<Rightarrow> ('a \<Rightarrow> error + 'b) \<Rightarrow> error + 'b" where
  "and_then m k = (case m of Inl e \<Rightarrow> Inl e | Inr x \<Rightarrow> k x)"

text \<open>The statement that replaces the network by the result of a call.\<close>

definition network_call ::
  "(('s, 'z) ext \<Rightarrow> ('s, 'z) state \<Rightarrow> error + ('s, 'z) network_scheme)
   \<Rightarrow> ('s, 'z) ext \<Rightarrow> ('s, 'z) state \<Rightarrow> error + ('s, 'z) state" where
  "network_call call env s = and_then (call env s) (\<lambda>n'. Inr (s\<lparr>var_n := n'\<rparr>))"

subsection \<open>Reading and writing tables\<close>

text \<open>
  \<^verbatim>\<open>costs[c]\<close> is the column as a series over the rows, \<^verbatim>\<open>costs[c] = series\<close> sets or
  adds a column, \<^verbatim>\<open>costs.at[r, c]\<close> is one cell, and \<^verbatim>\<open>x[c]\<close> is the cell of the row
  \<open>x\<close> that \<^verbatim>\<open>apply\<close> hands to its function. A label that the table does not have raises
  KeyError.
\<close>

definition getitem :: "frame \<Rightarrow> string \<Rightarrow> error + (string \<times> npfloat) list" where
  "getitem f c =
     (if c \<in> set (columns f) then Inr (map (\<lambda>t. (t, cells f t c)) (index f))
      else Inl (KeyError c))"

definition setitem :: "frame \<Rightarrow> string \<Rightarrow> (string \<times> npfloat) list \<Rightarrow> frame" where
  "setitem f c ser =
     f\<lparr>columns := (if c \<in> set (columns f) then columns f else columns f @ [c]),
       cells := (\<lambda>t p. if p = c then (case map_of ser t of Some v \<Rightarrow> v | None \<Rightarrow> None)
                        else cells f t p)\<rparr>"

definition cell_at :: "frame \<Rightarrow> string \<Rightarrow> string \<Rightarrow> error + npfloat" where
  "cell_at f r c =
     (if c \<notin> set (columns f) then Inl (KeyError c)
      else if r \<notin> set (index f) then Inl (KeyError r)
      else Inr (cells f r c))"

definition row_getitem :: "frame \<Rightarrow> string \<Rightarrow> string \<Rightarrow> error + npfloat" where
  "row_getitem f t c =
     (if c \<in> set (columns f) then Inr (cells f t c) else Inl (KeyError c))"

text \<open>
  \<^verbatim>\<open>costs.apply(g, axis=1)\<close>: \<open>g\<close> on each row in order; an exception of \<open>g\<close> ends it.
\<close>

fun apply_rows :: "(string \<Rightarrow> error + npfloat) \<Rightarrow> string list
                   \<Rightarrow> error + (string \<times> npfloat) list" where
  "apply_rows g [] = Inr []"
| "apply_rows g (t # ts) =
     and_then (g t) (\<lambda>v. and_then (apply_rows g ts) (\<lambda>rest. Inr ((t, v) # rest)))"

text \<open>
  Arithmetic of two series of the same table, and of a series and a number, cell by
  cell.
\<close>

definition series_op ::
  "(npfloat \<Rightarrow> npfloat \<Rightarrow> npfloat) \<Rightarrow> (string \<times> npfloat) list \<Rightarrow> (string \<times> npfloat) list
   \<Rightarrow> (string \<times> npfloat) list" where
  "series_op f xs ys = map (\<lambda>((t, x), (_, y)). (t, f x y)) (zip xs ys)"

definition series_scalar ::
  "(npfloat \<Rightarrow> npfloat \<Rightarrow> npfloat) \<Rightarrow> (string \<times> npfloat) list \<Rightarrow> npfloat
   \<Rightarrow> (string \<times> npfloat) list" where
  "series_scalar f xs c = map (\<lambda>(t, x). (t, f x c)) xs"

text \<open>
  \<^verbatim>\<open>ts.name\<close> is the column \<open>name\<close> of the time-series table, \<^verbatim>\<open>table[::k]\<close> keeps every
  \<open>k\<close>-th row, and \<^verbatim>\<open>.max()\<close> is the largest value that is not NaN (NaN when there is
  none).
\<close>

definition getattr :: "'s table \<Rightarrow> string \<Rightarrow> error + ('s \<times> npfloat) list" where
  "getattr ts c =
     (case column ts c of
        None \<Rightarrow> Inl (AttributeError c)
      | Some vs \<Rightarrow> Inr (zip (labels ts) vs))"

fun every :: "nat \<Rightarrow> 'a list \<Rightarrow> 'a list" where
  "every k [] = []"
| "every k (x # xs) = x # every k (drop (k - 1) xs)"

definition slice_step :: "nat \<Rightarrow> 's table \<Rightarrow> 's table" where
  "slice_step k ts =
     \<lparr>labels = every k (labels ts),
      column = (\<lambda>c. map_option (every k) (column ts c))\<rparr>"

fun series_max :: "('s \<times> npfloat) list \<Rightarrow> npfloat" where
  "series_max [] = None"
| "series_max ((_, v) # rest) =
     (case (v, series_max rest) of
        (Some x, Some y) \<Rightarrow> Some (max x y)
      | (Some x, None) \<Rightarrow> Some x
      | (None, m) \<Rightarrow> m)"

text \<open>
  The two direct assignments to tables of the network.
  \<^verbatim>\<open>n.generators.loc[row, col] = f(n.generators.loc[row, col])\<close>, which is what \<^verbatim>\<open>*=\<close>
  and \<^verbatim>\<open>/=\<close> do, and \<^verbatim>\<open>n.snapshot_weightings.loc[:, :] = c\<close>, which sets every cell.
\<close>

definition loc_update ::
  "string \<Rightarrow> string \<Rightarrow> (npfloat \<Rightarrow> npfloat) \<Rightarrow> ('s, 'z) network_scheme
   \<Rightarrow> error + ('s, 'z) network_scheme" where
  "loc_update row col f n =
     (case generators n row of
        None \<Rightarrow> Inl (KeyError row)
      | Some r \<Rightarrow>
          (case r col of
             None \<Rightarrow> Inl (KeyError col)
           | Some v \<Rightarrow> Inr (n\<lparr>generators := (generators n)(row \<mapsto> r(col \<mapsto> f v))\<rparr>)))"

definition loc_set_all :: "real \<Rightarrow> ('s, 'z) network_scheme \<Rightarrow> ('s, 'z) network_scheme" where
  "loc_set_all c n =
     n\<lparr>snapshot_weightings := (\<lambda>k. map_option (\<lambda>_. c) (snapshot_weightings n k))\<rparr>"

text \<open>
  The keyword arguments of a call are evaluated from left to right; the first exception
  ends the evaluation.
\<close>

fun eval_kwargs :: "(string \<times> (error + 's arg)) list \<Rightarrow> error + 's kwargs" where
  "eval_kwargs [] = Inr []"
| "eval_kwargs ((k, v) # rest) =
     and_then v (\<lambda>x. and_then (eval_kwargs rest) (\<lambda>xs. Inr ((k, x) # xs)))"

subsection \<open>Statements that both notebooks use\<close>

definition stmt_add ::
  "string \<Rightarrow> string list \<Rightarrow> (('s, 'z) state \<Rightarrow> (string \<times> (error + 's arg)) list)
   \<Rightarrow> ('s, 'z) statement" where
  "stmt_add cls names kw =
     (Add cls names,
      network_call (\<lambda>env s. and_then (eval_kwargs (kw s))
                              (\<lambda>args. add env (var_n s) cls names args)))"

definition stmt_remove :: "string \<Rightarrow> string \<Rightarrow> ('s, 'z) statement" where
  "stmt_remove cls name =
     (Remove cls name, network_call (\<lambda>env s. remove env (var_n s) cls name))"

definition stmt_optimize :: "string option \<Rightarrow> ('s, 'z) statement" where
  "stmt_optimize solver_name =
     (Optimize, network_call (\<lambda>env s. optimize env (var_n s) solver_name))"

text \<open>A statement that only shows a value; showing does not raise.\<close>

definition stmt_show :: "('s, 'z) statement" where
  "stmt_show = (Report, \<lambda>env s. Inr s)"

text \<open>
  A figure that shows nothing of the notebook's variables, and a table of the statistics
  module that is shown and not kept: the accessors are called in order.
\<close>

definition stmt_figure :: "string \<Rightarrow> ('s, 'z) statement" where
  "stmt_figure name = (Report, \<lambda>env s. and_then (plot env (Figure name)) (\<lambda>_. Inr s))"

fun call_statistics :: "('s, 'z) ext \<Rightarrow> ('s, 'z) network_scheme \<Rightarrow> (string \<times> 's kwargs) list
                        \<Rightarrow> error + stat list" where
  "call_statistics env n [] = Inr []"
| "call_statistics env n ((name, kw) # rest) =
     and_then (statistics env n name kw)
       (\<lambda>r. and_then (call_statistics env n rest) (\<lambda>rs. Inr (r # rs)))"

definition stmt_statistics :: "(string \<times> 's kwargs) list \<Rightarrow> ('s, 'z) statement" where
  "stmt_statistics accessors =
     (Report, \<lambda>env s. and_then (call_statistics env (var_n s) accessors) (\<lambda>_. Inr s))"

subsection \<open>The notebook on demand elasticity\<close>

text \<open>\<^verbatim>\<open>n = pypsa.examples.model_energy()\<close>\<close>

definition stmt_model_energy :: "('s, 'z) statement" where
  "stmt_model_energy = (Construct, network_call (\<lambda>env s. model_energy env))"

text \<open>\<^verbatim>\<open>get_price_duration(n).plot(..., label=label, ...)\<close>\<close>

definition stmt_plot_price_duration :: "rounding \<Rightarrow> string \<Rightarrow> ('s, 'z) statement" where
  "stmt_plot_price_duration rnd label =
     (Report,
      \<lambda>env s. and_then (get_price_duration rnd (var_n s) ''electricity'')
                 (\<lambda>curve. and_then (plot env (Curve label curve)) (\<lambda>_. Inr s)))"

text \<open>
  \<^verbatim>\<open>capacities = n.statistics.optimal_capacity(round=2).to_frame(name)\<close> for the first
  column and \<^verbatim>\<open>capacities[name] = n.statistics.optimal_capacity(round=2)\<close> for the others.
\<close>

definition stmt_capacities :: "bool \<Rightarrow> string \<Rightarrow> ('s, 'z) statement" where
  "stmt_capacities first name =
     (Report,
      \<lambda>env s. and_then (statistics env (var_n s) ''optimal_capacity'' [(''round'', Num (Some 2))])
                 (\<lambda>c. Inr (s\<lparr>var_capacities :=
                               (if first then [] else var_capacities s) @ [(name, c)]\<rparr>)))"

text \<open>\<^verbatim>\<open>n.generators_t.p[name].plot(...)\<close>\<close>

definition stmt_plot_dispatch :: "string \<Rightarrow> ('s, 'z) statement" where
  "stmt_plot_dispatch name =
     (Report,
      \<lambda>env s. (case generators_t_p (var_n s) name of
                  None \<Rightarrow> Inl (KeyError name)
                | Some p \<Rightarrow> and_then (plot env (Dispatch p)) (\<lambda>_. Inr s)))"

text \<open>\<^verbatim>\<open>n.generators.loc[row, col] *= c\<close> and \<^verbatim>\<open>n.generators.loc[row, col] /= c\<close>\<close>

definition stmt_loc_times :: "rounding \<Rightarrow> string \<Rightarrow> string \<Rightarrow> real \<Rightarrow> ('s, 'z) statement" where
  "stmt_loc_times rnd row col c =
     (Assign ''generators'' row col,
      network_call (\<lambda>env s. loc_update row col (\<lambda>v. np_mul rnd v (Some (rnd c))) (var_n s)))"

definition stmt_loc_over :: "rounding \<Rightarrow> string \<Rightarrow> string \<Rightarrow> real \<Rightarrow> ('s, 'z) statement" where
  "stmt_loc_over rnd row col c =
     (Assign ''generators'' row col,
      network_call (\<lambda>env s. loc_update row col (\<lambda>v. np_div rnd v (Some (rnd c))) (var_n s)))"

text \<open>The keyword argument \<^verbatim>\<open>x / y\<close> of two Python \<^verbatim>\<open>int\<close>s.\<close>

definition quotient :: "rounding \<Rightarrow> int \<Rightarrow> int \<Rightarrow> error + 's arg" where
  "quotient rnd x y = and_then (py_div rnd (of_int x) (of_int y)) (\<lambda>q. Inr (Num (Some q)))"

text \<open>
  The statements of the notebook, cell by cell. (The cell that draws the linear demand
  curve plots constants; its calls of the plotting library are one call here.)
\<close>

definition demand_elasticity :: "rounding \<Rightarrow> ('s, 'z) statement list" where
  "demand_elasticity rnd =
     [stmt_model_energy,
      stmt_remove ''Load'' ''demand'',
      stmt_remove ''Generator'' ''load shedding'',

      stmt_add ''Load'' [''demand'']
        (\<lambda>s. [(''bus'', Inr (Str ''electricity'')), (''p_set'', Inr (Num (Some 100)))]),
      stmt_optimize None,
      stmt_figure ''subplots'',
      stmt_plot_price_duration rnd ''default'',
      stmt_capacities True ''inelastic'',

      stmt_add ''Generator'' [''load-shedding'']
        (\<lambda>s. [(''bus'', Inr (Str ''electricity'')),
              (''carrier'', Inr (Str ''load'')),
              (''marginal_cost'', Inr (Num (Some 2000))),
              (''p_nom'', Inr (Num (Some 100)))]),
      stmt_optimize None,
      stmt_plot_price_duration rnd ''VOLL'',
      stmt_capacities False ''VOLL'',

      stmt_figure ''linear demand curve'',
      stmt_remove ''Generator'' ''load-shedding'',
      stmt_add ''Generator'' [''load-shedding'']
        (\<lambda>s. [(''bus'', Inr (Str ''electricity'')),
              (''carrier'', Inr (Str ''load'')),
              (''marginal_cost_quadratic'', quotient rnd 20 2),
              (''p_nom'', Inr (Num (Some 100)))]),
      stmt_optimize (Some ''gurobi''),
      stmt_plot_price_duration rnd ''linear-elastic'',
      stmt_capacities False ''linear-elastic'',
      stmt_plot_dispatch ''load-shedding'',

      stmt_loc_times rnd ''load-shedding'' ''p_nom_max'' (2 / 10),
      stmt_loc_over rnd ''load-shedding'' ''marginal_cost_quadratic'' (2 / 10),
      stmt_optimize (Some ''gurobi''),
      stmt_plot_price_duration rnd ''mixed-elastic'',
      stmt_capacities False ''mixed-elastic'',
      stmt_plot_dispatch ''load-shedding'']"

subsection \<open>The notebook on capacity expansion\<close>

definition costs_url :: string where
  "costs_url =
     ''https://raw.githubusercontent.com/PyPSA/technology-data/master/outputs/costs_2030.csv''"

definition ts_url :: string where
  "ts_url = ''https://tubcloud.tu-berlin.de/s/9toBssWEdaLgHzq/download/time-series.csv''"

definition RESOLUTION :: nat where
  "RESOLUTION = 3"

text \<open>
  \<^verbatim>\<open>
  costs = pd.read_csv(url, index_col=[0, 1])
  costs.loc[costs.unit.str.contains("/kW"), "value"] *= 1e3
  costs = costs.value.unstack().fillna({...})
  \<close>
\<close>

definition stmt_costs :: "rounding \<Rightarrow> ('s, 'z) statement" where
  "stmt_costs rnd =
     (Compute,
      \<lambda>env s. and_then (read_csv_costs env costs_url)
                 (\<lambda>rows. and_then (prepare_costs rnd rows)
                   (\<lambda>f. Inr (s\<lparr>var_costs := f\<rparr>))))"

text \<open>\<^verbatim>\<open>costs["marginal_cost"] = costs["VOM"] + costs["fuel"] / costs["efficiency"]\<close>\<close>

definition stmt_marginal_cost :: "rounding \<Rightarrow> ('s, 'z) statement" where
  "stmt_marginal_cost rnd =
     (Compute,
      \<lambda>env s. and_then (getitem (var_costs s) ''VOM'')
                 (\<lambda>vom. and_then (getitem (var_costs s) ''fuel'')
                   (\<lambda>fuel. and_then (getitem (var_costs s) ''efficiency'')
                     (\<lambda>eff. Inr (s\<lparr>var_costs :=
                         setitem (var_costs s) ''marginal_cost''
                           (series_op (np_add rnd) vom (series_op (np_div rnd) fuel eff))\<rparr>)))))"

text \<open>\<^verbatim>\<open>a = costs.apply(lambda x: annuity(x["discount rate"], x["lifetime"]), axis=1)\<close>\<close>

definition stmt_annuity :: "rounding \<Rightarrow> ('s, 'z) statement" where
  "stmt_annuity rnd =
     (Compute,
      \<lambda>env s. and_then
                 (apply_rows
                    (\<lambda>x. and_then (row_getitem (var_costs s) x ''discount rate'')
                            (\<lambda>r. and_then (row_getitem (var_costs s) x ''lifetime'')
                              (\<lambda>n. annuity (numpy_float64 rnd) r n)))
                    (index (var_costs s)))
                 (\<lambda>a. Inr (s\<lparr>var_a := a\<rparr>)))"

text \<open>\<^verbatim>\<open>costs["capital_cost"] = (a + costs["FOM"] / 100) * costs["investment"]\<close>\<close>

definition stmt_capital_cost :: "rounding \<Rightarrow> ('s, 'z) statement" where
  "stmt_capital_cost rnd =
     (Compute,
      \<lambda>env s. and_then (getitem (var_costs s) ''FOM'')
                 (\<lambda>fom. and_then (getitem (var_costs s) ''investment'')
                   (\<lambda>inv. Inr (s\<lparr>var_costs :=
                       setitem (var_costs s) ''capital_cost''
                         (series_op (np_mul rnd)
                            (series_op (np_add rnd) (var_a s)
                               (series_scalar (np_div rnd) fom (Some 100)))
                            inv)\<rparr>))))"

text \<open>\<^verbatim>\<open>ts = pd.read_csv(url, index_col=0, parse_dates=True)[::RESOLUTION]\<close>\<close>

definition stmt_ts :: "('s, 'z) statement" where
  "stmt_ts =
     (Compute,
      \<lambda>env s. and_then (read_csv_ts env ts_url)
                 (\<lambda>t. Inr (s\<lparr>var_ts := slice_step RESOLUTION t\<rparr>)))"

text \<open>
  \<^verbatim>\<open>n = pypsa.Network()\<close>, \<^verbatim>\<open>n.set_snapshots(ts.index)\<close>,
  \<^verbatim>\<open>n.snapshot_weightings.loc[:, :] = RESOLUTION\<close> and
  \<^verbatim>\<open>n.buses_t.marginal_price.plot(figsize=(7, 2))\<close>.
\<close>

definition stmt_new_network :: "('s, 'z) statement" where
  "stmt_new_network = (Construct, network_call (\<lambda>env s. new_network env))"

definition stmt_set_snapshots :: "('s, 'z) statement" where
  "stmt_set_snapshots =
     (Set_snapshots, network_call (\<lambda>env s. set_snapshots env (var_n s) (labels (var_ts s))))"

definition stmt_weightings :: "('s, 'z) statement" where
  "stmt_weightings =
     (Assign ''snapshot_weightings'' '':'' '':'',
      network_call (\<lambda>env s. Inr (loc_set_all (real RESOLUTION) (var_n s))))"

definition stmt_plot_prices :: "('s, 'z) statement" where
  "stmt_plot_prices =
     (Report,
      \<lambda>env s. and_then (plot env (Prices (buses_t_marginal_price (var_n s)))) (\<lambda>_. Inr s))"

text \<open>
  A keyword argument read from the cost table (\<^verbatim>\<open>costs.at[r, c]\<close>, or an expression
  \<open>f\<close> of two such cells) or from the time series (\<^verbatim>\<open>ts.c\<close>, or \<^verbatim>\<open>ts.c.max()\<close>).
\<close>

definition cost :: "('s, 'z) state \<Rightarrow> string \<Rightarrow> string \<Rightarrow> error + 's arg" where
  "cost s r c = and_then (cell_at (var_costs s) r c) (\<lambda>v. Inr (Num v))"

definition cost2 ::
  "('s, 'z) state \<Rightarrow> string \<Rightarrow> string \<Rightarrow> string \<Rightarrow> string \<Rightarrow> (npfloat \<Rightarrow> npfloat \<Rightarrow> npfloat)
   \<Rightarrow> error + 's arg" where
  "cost2 s r c r' c' f =
     and_then (cell_at (var_costs s) r c)
       (\<lambda>x. and_then (cell_at (var_costs s) r' c') (\<lambda>y. Inr (Num (f x y))))"

definition profile :: "('s, 'z) state \<Rightarrow> string \<Rightarrow> error + 's arg" where
  "profile s c = and_then (getattr (var_ts s) c) (\<lambda>p. Inr (Ser p))"

definition peak :: "('s, 'z) state \<Rightarrow> string \<Rightarrow> error + 's arg" where
  "peak s c = and_then (getattr (var_ts s) c) (\<lambda>p. Inr (Num (series_max p)))"

definition carriers :: "string list" where
  "carriers = [''wind'', ''solar'', ''hydrogen storage'', ''battery storage'',
               ''load shedding'', ''electrolysis'', ''turbine'', ''electricity'', ''hydrogen'']"

definition colors :: "string list" where
  "colors = [''dodgerblue'', ''gold'', ''black'', ''yellowgreen'', ''darkorange'',
             ''magenta'', ''red'', ''grey'', ''grey'']"

definition capacity_expansion :: "rounding \<Rightarrow> ('s, 'z) statement list" where
  "capacity_expansion rnd =
     [stmt_costs rnd,
      stmt_marginal_cost rnd,
      stmt_annuity rnd,
      stmt_capital_cost rnd,
      stmt_ts,
      stmt_show,

      stmt_new_network,
      stmt_add ''Bus'' [''electricity''] (\<lambda>s. [(''carrier'', Inr (Str ''electricity''))]),
      stmt_set_snapshots,
      stmt_weightings,
      stmt_add ''Carrier'' carriers (\<lambda>s. [(''color'', Inr (Strs colors))]),
      stmt_add ''Load'' [''demand'']
        (\<lambda>s. [(''bus'', Inr (Str ''electricity'')), (''p_set'', profile s ''load_mw'')]),
      stmt_add ''Generator'' [''load shedding'']
        (\<lambda>s. [(''bus'', Inr (Str ''electricity'')),
              (''carrier'', Inr (Str ''load shedding'')),
              (''marginal_cost'', Inr (Num (Some 2000))),
              (''p_nom'', peak s ''load_mw'')]),
      stmt_add ''Generator'' [''wind'']
        (\<lambda>s. [(''bus'', Inr (Str ''electricity'')),
              (''carrier'', Inr (Str ''wind'')),
              (''p_max_pu'', profile s ''wind_pu''),
              (''capital_cost'', cost s ''onwind'' ''capital_cost''),
              (''marginal_cost'', cost s ''onwind'' ''marginal_cost''),
              (''p_nom_extendable'', Inr (Flag True))]),
      stmt_add ''Generator'' [''solar'']
        (\<lambda>s. [(''bus'', Inr (Str ''electricity'')),
              (''carrier'', Inr (Str ''solar'')),
              (''p_max_pu'', profile s ''pv_pu''),
              (''capital_cost'', cost s ''solar'' ''capital_cost''),
              (''marginal_cost'', cost s ''solar'' ''marginal_cost''),
              (''p_nom_extendable'', Inr (Flag True))]),
      stmt_add ''StorageUnit'' [''battery storage'']
        (\<lambda>s. [(''bus'', Inr (Str ''electricity'')),
              (''carrier'', Inr (Str ''battery storage'')),
              (''max_hours'', Inr (Num (Some 3))),
              (''capital_cost'',
                 cost2 s ''battery inverter'' ''capital_cost'' ''battery storage'' ''capital_cost''
                   (\<lambda>x y. np_add rnd x (np_mul rnd (Some 3) y))),
              (''efficiency_store'', cost s ''battery inverter'' ''efficiency''),
              (''efficiency_dispatch'', cost s ''battery inverter'' ''efficiency''),
              (''p_nom_extendable'', Inr (Flag True)),
              (''cyclic_state_of_charge'', Inr (Flag True))]),
      stmt_add ''Bus'' [''hydrogen''] (\<lambda>s. [(''carrier'', Inr (Str ''hydrogen''))]),
      stmt_add ''Link'' [''electrolysis'']
        (\<lambda>s. [(''bus0'', Inr (Str ''electricity'')),
              (''bus1'', Inr (Str ''hydrogen'')),
              (''carrier'', Inr (Str ''electrolysis'')),
              (''p_nom_extendable'', Inr (Flag True)),
              (''efficiency'', cost s ''electrolysis'' ''efficiency''),
              (''capital_cost'', cost s ''electrolysis'' ''capital_cost'')]),
      stmt_add ''Link'' [''turbine'']
        (\<lambda>s. [(''bus0'', Inr (Str ''hydrogen'')),
              (''bus1'', Inr (Str ''electricity'')),
              (''carrier'', Inr (Str ''turbine'')),
              (''p_nom_extendable'', Inr (Flag True)),
              (''efficiency'', cost s ''OCGT'' ''efficiency''),
              (''capital_cost'',
                 cost2 s ''OCGT'' ''capital_cost'' ''OCGT'' ''efficiency'' (np_div rnd))]),
      stmt_add ''Store'' [''hydrogen storage'']
        (\<lambda>s. [(''bus'', Inr (Str ''hydrogen'')),
              (''carrier'', Inr (Str ''hydrogen storage'')),
              (''capital_cost'', cost s ''hydrogen storage underground'' ''capital_cost''),
              (''e_nom_extendable'', Inr (Flag True)),
              (''e_cyclic'', Inr (Flag True))]),

      stmt_optimize (Some ''highs''),

      stmt_statistics [(''capex'', []), (''opex'', [])],
      stmt_show,
      stmt_statistics [(''optimal_capacity'', [])],
      stmt_statistics [(''energy_balance'', [(''bus_carrier'', Str ''electricity'')])],
      stmt_figure ''energy_balance.plot.area'',
      stmt_plot_prices]"

subsection \<open>How a run can fail\<close>

text \<open>An exception that some call of the record raises, for some arguments.\<close>

definition external_error :: "('s, 'z) ext \<Rightarrow> error \<Rightarrow> bool" where
  "external_error env e \<longleftrightarrow>
     (\<exists>u. read_csv_costs env u = Inl e)
   \<or> (\<exists>u. read_csv_ts env u = Inl e)
   \<or> new_network env = Inl e
   \<or> model_energy env = Inl e
   \<or> (\<exists>n c ns kw. add env n c ns kw = Inl e)
   \<or> (\<exists>n c name. remove env n c name = Inl e)
   \<or> (\<exists>n sn. set_snapshots env n sn = Inl e)
   \<or> (\<exists>n solver. optimize env n solver = Inl e)
   \<or> (\<exists>n name kw. statistics env n name kw = Inl e)
   \<or> (\<exists>p. plot env p = Inl e)"

text \<open>The exceptions that the statements of the notebooks raise themselves.\<close>

fun own_error :: "error \<Rightarrow> bool" where
  "own_error ZeroDivisionError = True"
| "own_error (KeyError _) = True"
| "own_error (AttributeError _) = True"
| "own_error ValueError = True"
| "own_error (ExternalError _) = False"

text \<open>No call of the record raises.\<close>

definition never_fails :: "('s, 'z) ext \<Rightarrow> bool" where
  "never_fails env \<longleftrightarrow> (\<forall>e. \<not> external_error env e)"

text \<open>A statement that fails only with an exception of a call or one of its own.\<close>

definition fails_well :: "('s, 'z) ext \<Rightarrow> ('s, 'z) statement \<Rightarrow> bool" where
  "fails_well env st \<longleftrightarrow>
     (\<forall>s e. snd st env s = Inl e \<longrightarrow> external_error env e \<or> own_error e)"

text \<open>Keyword arguments whose evaluation raises only exceptions of the notebook.\<close>

definition kwargs_well :: "(('s, 'z) state \<Rightarrow> (string \<times> (error + 's arg)) list) \<Rightarrow> bool" where
  "kwargs_well kw \<longleftrightarrow> (\<forall>s k e. (k, Inl e) \<in> set (kw s) \<longrightarrow> own_error e)"

subsection \<open>How the statements treat the network\<close>

text \<open>A statement that leaves the network as it is.\<close>

definition keeps_network :: "('s, 'z) statement \<Rightarrow> bool" where
  "keeps_network st \<longleftrightarrow> (\<forall>env s s'. snd st env s = Inr s' \<longrightarrow> var_n s' = var_n s)"

text \<open>
  The specification names three calls through which the network is built and changed;
  making the object is taken to be one more of them.
\<close>

fun touches_network :: "tag \<Rightarrow> bool" where
  "touches_network Report = False"
| "touches_network Compute = False"
| "touches_network _ = True"

fun named_call :: "tag \<Rightarrow> bool" where
  "named_call Construct = True"
| "named_call (Add _ _) = True"
| "named_call (Remove _ _) = True"
| "named_call Optimize = True"
| "named_call _ = False"

definition other_mutations :: "('s, 'z) statement list \<Rightarrow> tag list" where
  "other_mutations nb = filter (\<lambda>t. touches_network t \<and> \<not> named_call t) (map fst nb)"

text \<open>
  The positions at which a table is assigned to directly in a row that an earlier
  statement has added, and no statement in between has removed, and after which a
  statement reports.
\<close>

fun changed_after_add :: "string list \<Rightarrow> tag list \<Rightarrow> tag list" where
  "changed_after_add added [] = []"
| "changed_after_add added (Add cls names # rest) = changed_after_add (names @ added) rest"
| "changed_after_add added (Remove cls name # rest) =
     changed_after_add (removeAll name added) rest"
| "changed_after_add added (Assign table row col # rest) =
     (if row \<in> set added \<and> Report \<in> set rest then [Assign table row col] else [])
     @ changed_after_add added rest"
| "changed_after_add added (_ # rest) = changed_after_add added rest"

section \<open>Example inputs\<close>

text \<open>
  A network with three snapshots, an electricity bus with the prices 5, 50 and 20, and a
  hydrogen bus whose price column is empty; and a network with 29 snapshots and the
  prices 0, 1, ..., 28.
\<close>

definition example_network :: "nat network" where
  "example_network =
     \<lparr>buses_t_marginal_price =
        [''electricity'' \<mapsto> [(0, 5), (1, 50), (2, 20)], ''hydrogen'' \<mapsto> []],
      generators = Map.empty,
      snapshot_weightings = Map.empty,
      generators_t_p = Map.empty\<rparr>"

definition month_network :: "nat network" where
  "month_network =
     \<lparr>buses_t_marginal_price = [''electricity'' \<mapsto> map (\<lambda>i. (i, real i)) [0..<29]],
      generators = Map.empty,
      snapshot_weightings = Map.empty,
      generators_t_p = Map.empty\<rparr>"

text \<open>
  A download with six rows: two investments per kW, an empty FOM cell, a discount rate
  stored as 0, and no row at all for several (technology, parameter) combinations; and a
  wide table in which solar has the discount rate 0 and onwind has none.
\<close>

definition example_costs :: "cost_row list" where
  "example_costs =
     [\<lparr>technology = ''onwind'', parameter = ''investment'',
        row_value = Some 1040, row_unit = ''EUR/kW''\<rparr>,
      \<lparr>technology = ''onwind'', parameter = ''lifetime'',
        row_value = Some 30, row_unit = ''years''\<rparr>,
      \<lparr>technology = ''onwind'', parameter = ''FOM'',
        row_value = None, row_unit = ''%/year''\<rparr>,
      \<lparr>technology = ''solar'', parameter = ''investment'',
        row_value = Some 600, row_unit = ''EUR/kW_e''\<rparr>,
      \<lparr>technology = ''solar'', parameter = ''discount rate'',
        row_value = Some 0, row_unit = ''per unit''\<rparr>,
      \<lparr>technology = ''solar'', parameter = ''VOM'',
        row_value = Some 2, row_unit = ''EUR/MWh''\<rparr>]"


text \<open>The variables before the first cell has run.\<close>

definition initial :: "(nat, unit) state" where
  "initial =
     \<lparr>var_costs = \<lparr>index = [], columns = [], cells = (\<lambda>t p. None)\<rparr>,
      var_a = [],
      var_ts = \<lparr>labels = [], column = Map.empty\<rparr>,
      var_n = example_network,
      var_capacities = []\<rparr>"

text \<open>A network without snapshots: the price column of its bus is empty.\<close>

definition still_network :: "nat network" where
  "still_network =
     \<lparr>buses_t_marginal_price = [''electricity'' \<mapsto> []],
      generators = Map.empty,
      snapshot_weightings = Map.empty,
      generators_t_p = Map.empty\<rparr>"

text \<open>
  A library none of whose calls raises: its example network is \<open>still_network\<close>, and its
  methods return the network they are given.
\<close>

definition calm :: "(nat, unit) ext" where
  "calm =
     \<lparr>read_csv_costs = (\<lambda>url. Inr example_costs),
      read_csv_ts = (\<lambda>url. Inr \<lparr>labels = [], column = Map.empty\<rparr>),
      new_network = Inr still_network,
      model_energy = Inr still_network,
      add = (\<lambda>n cls names kw. Inr n),
      remove = (\<lambda>n cls name. Inr n),
      set_snapshots = (\<lambda>n sn. Inr n),
      optimize = (\<lambda>n solver. Inr n),
      statistics = (\<lambda>n name kw. Inr []),
      plot = (\<lambda>p. Inr ())\<rparr>"

text \<open>The same library with a solver that finds the model infeasible.\<close>

definition stormy :: "(nat, unit) ext" where
  "stormy = calm\<lparr>optimize := (\<lambda>n solver. Inl (ExternalError ''infeasible''))\<rparr>"

text \<open>
  A network in which the generator load-shedding has the quadratic marginal cost 10 and
  no upper bound on its capacity.
\<close>

definition elastic_network :: "nat network" where
  "elastic_network =
     \<lparr>buses_t_marginal_price = Map.empty,
      generators = [''load-shedding'' \<mapsto>
                      [''p_nom_max'' \<mapsto> None, ''marginal_cost_quadratic'' \<mapsto> Some 10]],
      snapshot_weightings = Map.empty,
      generators_t_p = Map.empty\<rparr>"

text \<open>The variables when the network is \<open>elastic_network\<close>.\<close>

definition elastic_state :: "(nat, unit) state" where
  "elastic_state = initial\<lparr>var_n := elastic_network\<rparr>"

section \<open>Properties of the rounding\<close>

lemma bit_length_pos: "0 < n \<Longrightarrow> bit_length n = Suc (bit_length (n div 2))"
  by (subst bit_length.simps) simp

lemma bit_length_one: "bit_length (Suc 0) = Suc 0"
  by (simp add: bit_length.simps)

lemma bit_length_bounds:
  "0 < n \<Longrightarrow> 2 ^ (bit_length n - 1) \<le> n \<and> n < 2 ^ bit_length n"
proof (induction n rule: bit_length.induct)
  case (1 n)
  show ?case
  proof (cases "n div 2 = 0")
    case True
    then have "n = 1" using "1.prems" by (simp add: div_eq_0_iff)
    then show ?thesis by (simp add: bit_length_one)
  next
    case False
    then have ih: "2 ^ (bit_length (n div 2) - 1) \<le> n div 2
                 \<and> n div 2 < 2 ^ bit_length (n div 2)"
      using "1.IH" "1.prems" by simp
    have bl: "bit_length n = Suc (bit_length (n div 2))"
      using "1.prems" by (rule bit_length_pos)
    have "bit_length (n div 2) = Suc (bit_length (n div 2 div 2))"
      using False by (intro bit_length_pos) simp
    then have "2 ^ (bit_length n - 1) = 2 * 2 ^ (bit_length (n div 2) - 1)"
      using bl by simp
    also have "\<dots> \<le> 2 * (n div 2)" using ih by simp
    also have "\<dots> \<le> n" by simp
    finally have lo: "2 ^ (bit_length n - 1) \<le> n" .
    have "n < 2 * (n div 2) + 2" by presburger
    also have "\<dots> \<le> 2 * 2 ^ bit_length (n div 2)" using ih by simp
    finally have hi: "n < 2 ^ bit_length n" using bl by simp
    show ?thesis using lo hi by simp
  qed
qed

text \<open>
  The rounding is what its description says: \<open>f64_exponent\<close> brackets its argument
  between two powers of two, the rounded number has a significand of 53 bits, and it is
  within half a unit in the last place of the argument.
\<close>

lemma pow2_pos: "0 < pow2 k"
  by (simp add: pow2_def)

lemma pow2_powi: "pow2 k = 2 powi k"
  by (simp add: pow2_def power_int_def power_one_over)

lemma pow2_add: "pow2 (j + k) = pow2 j * pow2 k"
  by (simp add: pow2_powi power_int_add)

lemma pow2_Suc: "pow2 (k + 1) = 2 * pow2 k"
  by (simp add: pow2_powi power_int_add)

lemma bit_length_gt0: "0 < n \<Longrightarrow> 0 < bit_length n"
  by (simp add: bit_length_pos)

lemma f64_exponent_bounds:
  assumes "0 < x"
  shows "pow2 (f64_exponent x) \<le> x \<and> x < pow2 (f64_exponent x + 1)"
proof (cases "1 \<le> x")
  case True
  define n where "n = nat \<lfloor>x\<rfloor>"
  have n: "0 < n" "real n \<le> x" "x < real n + 1"
    using True by (simp_all add: n_def)
  have e: "f64_exponent x = int (bit_length n) - 1"
    using True by (simp add: f64_exponent_def n_def)
  from bit_length_bounds [OF n(1)]
  have b: "2 ^ (bit_length n - 1) \<le> n" "n < 2 ^ bit_length n" by simp_all
  have k: "0 < bit_length n" using n(1) by (rule bit_length_gt0)
  have lo: "pow2 (int (bit_length n) - 1) = 2 ^ (bit_length n - 1)"
    using k by (simp add: pow2_def nat_diff_distrib')
  have hi: "pow2 (int (bit_length n) - 1 + 1) = 2 ^ bit_length n"
    by (simp add: pow2_def)
  have "(2::real) ^ (bit_length n - 1) \<le> real n"
    using b(1) by (metis of_nat_le_iff of_nat_numeral of_nat_power)
  moreover have "real n + 1 \<le> 2 ^ bit_length n"
  proof -
    have "n + 1 \<le> 2 ^ bit_length n" using b(2) by simp
    then have "real (n + 1) \<le> real (2 ^ bit_length n)" by (simp only: of_nat_le_iff)
    then show ?thesis by simp
  qed
  ultimately show ?thesis unfolding e lo hi using n by linarith
next
  case False
  define m where "m = nat \<lceil>1 / x\<rceil>"
  have x1: "1 < 1 / x" using False assms by simp
  have m: "1 / x \<le> real m" "real m - 1 < 1 / x" "2 \<le> m"
    using x1 by (simp_all add: m_def) linarith+
  define k where "k = bit_length (m - 1)"
  have e: "f64_exponent x = - int k"
    using False by (simp add: f64_exponent_def m_def k_def)
  have m1: "0 < m - 1" using m(3) by simp
  from bit_length_bounds [OF m1]
  have b: "2 ^ (k - 1) \<le> m - 1" "m - 1 < 2 ^ k" by (simp_all add: k_def)
  have kpos: "0 < k" unfolding k_def using m1 by (rule bit_length_gt0)
  have lo: "pow2 (- int k) = 1 / 2 ^ k"
    using kpos by (simp add: pow2_def)
  have hi: "pow2 (- int k + 1) = 1 / 2 ^ (k - 1)"
  proof (cases "k = 1")
    case True
    then show ?thesis by (simp add: pow2_def)
  next
    case False
    then have "- int k + 1 < 0" "nat (int k - 1) = k - 1" using kpos by simp_all
    then show ?thesis by (simp add: pow2_def)
  qed
  have up: "real m \<le> 2 ^ k"
  proof -
    have "m \<le> 2 ^ k" using b(2) by simp
    then have "real m \<le> real (2 ^ k)" by (simp only: of_nat_le_iff)
    then show ?thesis by simp
  qed
  have dn: "(2::real) ^ (k - 1) \<le> real m - 1"
  proof -
    have "real (2 ^ (k - 1)) \<le> real (m - 1)" using b(1) by (simp only: of_nat_le_iff)
    then show ?thesis using m(3) by (simp add: of_nat_diff)
  qed
  have a: "1 / x \<le> 2 ^ k" using m(1) up by linarith
  have c: "2 ^ (k - 1) < 1 / x" using m(2) dn by linarith
  have "1 / 2 ^ k \<le> x"
    using a assms by (simp add: field_simps)
  moreover have "x < 1 / 2 ^ (k - 1)"
    using c assms by (simp add: field_simps)
  ultimately show ?thesis unfolding e lo hi by simp
qed

lemma round_half_even_error: "\<bar>of_int (round_half_even q) - q\<bar> \<le> 1 / 2"
  unfolding round_half_even_def Let_def by (auto simp: abs_if) linarith+

lemma f64_round_error:
  assumes "x \<noteq> 0"
  shows "\<bar>f64_round x - x\<bar> \<le> pow2 (f64_exponent \<bar>x\<bar> - 53)"
proof -
  define e where "e = f64_exponent \<bar>x\<bar>"
  define m where "m = round_half_even (\<bar>x\<bar> * pow2 (52 - e))"
  have inv: "pow2 (52 - e) * pow2 (e - 52) = 1"
    using pow2_add [of "52 - e" "e - 52"] by (simp add: pow2_def)
  have half: "pow2 (e - 53) = pow2 (e - 52) / 2"
    using pow2_Suc [of "e - 53"] by simp
  have r: "f64_round x = sgn x * of_int m * pow2 (e - 52)"
    using assms by (simp add: f64_round_def Let_def e_def m_def)
  have "x = sgn x * \<bar>x\<bar>" by (simp add: sgn_mult_abs)
  also have "\<dots> = sgn x * (\<bar>x\<bar> * pow2 (52 - e)) * pow2 (e - 52)"
    using inv by (simp add: mult.assoc)
  finally have x: "x = sgn x * (\<bar>x\<bar> * pow2 (52 - e)) * pow2 (e - 52)" .
  have "f64_round x - x = sgn x * (of_int m - \<bar>x\<bar> * pow2 (52 - e)) * pow2 (e - 52)"
    unfolding r by (subst (2) x) (simp add: algebra_simps)
  then have "\<bar>f64_round x - x\<bar> = \<bar>of_int m - \<bar>x\<bar> * pow2 (52 - e)\<bar> * pow2 (e - 52)"
    using assms pow2_pos [of "e - 52"] by (simp add: abs_mult abs_sgn_eq)
  also have "\<dots> \<le> (1 / 2) * pow2 (e - 52)"
    unfolding m_def using pow2_pos [of "e - 52"]
    by (intro mult_right_mono round_half_even_error) simp
  finally show ?thesis using half unfolding e_def by simp
qed

lemma f64_round_significand:
  assumes "x \<noteq> 0"
  shows "\<exists>m. f64_round x = sgn x * of_int m * pow2 (f64_exponent \<bar>x\<bar> - 52)
           \<and> 2 ^ 52 \<le> m \<and> m \<le> 2 ^ 53"
proof -
  define e where "e = f64_exponent \<bar>x\<bar>"
  define q where "q = \<bar>x\<bar> * pow2 (52 - e)"
  define m where "m = round_half_even q"
  have pos: "0 < \<bar>x\<bar>" using assms by simp
  from f64_exponent_bounds [OF pos]
  have b: "pow2 e \<le> \<bar>x\<bar>" "\<bar>x\<bar> < pow2 (e + 1)" by (simp_all add: e_def)
  have s: "0 < pow2 (52 - e)" by (rule pow2_pos)
  have "pow2 e * pow2 (52 - e) = 2 ^ 52"
    using pow2_add [of e "52 - e"] by (simp add: pow2_def)
  moreover have "pow2 e * pow2 (52 - e) \<le> q"
    unfolding q_def using b(1) s by (intro mult_right_mono) simp_all
  ultimately have lo: "2 ^ 52 \<le> q" by simp
  have "pow2 (e + 1) * pow2 (52 - e) = 2 ^ 53"
    using pow2_add [of "e + 1" "52 - e"] by (simp add: pow2_def)
  moreover have "q < pow2 (e + 1) * pow2 (52 - e)"
    unfolding q_def using b(2) s by (intro mult_strict_right_mono)
  ultimately have hi: "q < 2 ^ 53" by simp
  have err: "\<bar>of_int m - q\<bar> \<le> 1 / 2"
    unfolding m_def by (rule round_half_even_error)
  have "2 ^ 52 - 1 < real_of_int m" using lo err by linarith
  moreover have "real_of_int (2 ^ 52 - 1) = 2 ^ 52 - 1" by simp
  ultimately have "real_of_int (2 ^ 52 - 1) < of_int m" by (simp only:)
  then have "2 ^ 52 - 1 < m" by (simp only: of_int_less_iff)
  then have m_lo: "2 ^ 52 \<le> m" by linarith
  have "real_of_int m < 2 ^ 53 + 1" using hi err by linarith
  moreover have "real_of_int (2 ^ 53 + 1) = 2 ^ 53 + 1" by simp
  ultimately have "real_of_int m < of_int (2 ^ 53 + 1)" by (simp only:)
  then have "m < 2 ^ 53 + 1" by (simp only: of_int_less_iff)
  then have m_hi: "m \<le> 2 ^ 53" by linarith
  have "f64_round x = sgn x * of_int m * pow2 (e - 52)"
    using assms by (simp add: f64_round_def Let_def e_def m_def q_def)
  then show ?thesis using m_lo m_hi unfolding e_def by blast
qed

lemma f64_round_one_plus_tiny:
  assumes "0 \<le> r" "r \<le> 1 / 2 ^ 53"
  shows "f64_round (1 + r) = 1"
proof -
  define P :: real where "P = 2 ^ 52"
  define N :: int where "N = 2 ^ 52"
  have P: "0 < P" "P = of_int N" "pow2 52 = P" "pow2 (- 52) = 1 / P" "even N"
    by (simp_all add: P_def N_def pow2_def)
  have r1: "r < 1" using assms(2) by (rule order_le_less_trans) simp
  have fl: "\<lfloor>1 + r\<rfloor> = 1" using assms(1) r1 by (simp add: floor_eq_iff)
  have e: "f64_exponent (1 + r) = 0"
    using assms(1) by (simp add: f64_exponent_def fl bit_length_one)
  have half: "r * P \<le> 1 / 2"
  proof -
    have "r * P \<le> (1 / 2 ^ 53) * P"
      using assms(2) P(1) by (intro mult_right_mono) simp_all
    also have "\<dots> = 1 / 2" by (simp add: P_def)
    finally show ?thesis .
  qed
  have nn: "0 \<le> r * P" using assms(1) P(1) by simp
  have q: "(1 + r) * P = of_int N + r * P" by (simp add: algebra_simps P(2))
  have flq: "\<lfloor>of_int N + r * P\<rfloor> = N"
    using nn half by (simp add: floor_eq_iff)
  have m: "round_half_even ((1 + r) * P) = N"
    unfolding q round_half_even_def Let_def flq using half P(5) by auto
  have "1 + r \<noteq> 0" "\<bar>1 + r\<bar> = 1 + r" "sgn (1 + r) = 1" using assms(1) by simp_all
  then have "f64_round (1 + r)
             = 1 * of_int (round_half_even ((1 + r) * pow2 (52 - 0))) * pow2 (0 - 52)"
    by (simp only: f64_round_def Let_def e if_False)
  also have "\<dots> = of_int N * (1 / P)"
    by (simp only: diff_zero P(3) m mult_1 diff_0 P(4))
  also have "\<dots> = 1" using P(1) by (simp add: P(2))
  finally show ?thesis .
qed

lemma f64_round_1: "f64_round 1 = 1"
  using f64_round_one_plus_tiny [of 0] by simp

lemma f64_round_0: "f64_round 0 = 0"
  by (simp add: f64_round_def)

lemma f64_round_literals:
  "f64_round 1000 = 1000" "f64_round 20 = 20" "f64_round 100 = 100"
  by code_simp+

lemma rounding_literals:
  assumes "rnd = exact \<or> rnd = f64_round"
  shows "rnd 0 = 0" "rnd 1 = 1" "rnd 20 = 20" "rnd 1000 = 1000"
  using assms by (auto simp: exact_def f64_round_0 f64_round_1 f64_round_literals)

section \<open>Properties of the annuity factor\<close>









text \<open>
  With the \<^verbatim>\<open>float64\<close> cells that \<^verbatim>\<open>costs.apply\<close> passes, the same division by zero
  does not raise: a discount rate stored as 0 gives NaN.
\<close>

lemma annuity_numpy_zero_rate:
  assumes "rnd = exact \<or> rnd = f64_round"
  shows "annuity (numpy_float64 rnd) (Some 0) n = Inr None"
proof -
  have l: "rnd 1 = 1" "rnd 0 = 0" using rounding_literals [OF assms] by simp_all
  show ?thesis
    by (simp add: annuity_def numpy_float64_def np_add_def np_pow_def np_div_def
        np_sub_def l)
qed




section \<open>Properties of the price-duration curve\<close>

lemma sort_values_desc_sorted: "sorted_wrt (\<ge>) (map snd (sort_values_desc s))"
proof -
  have "sorted (map (\<lambda>p. - snd p) (sort_values_desc s))"
    unfolding sort_values_desc_def by (rule sorted_sort_key)
  then show ?thesis
    by (simp add: sorted_wrt_map)
qed

lemma sort_values_desc_mset: "mset (sort_values_desc s) = mset s"
  unfolding sort_values_desc_def by simp

lemma sort_values_desc_length: "length (sort_values_desc s) = length s"
  unfolding sort_values_desc_def by simp

lemma descending_unique:
  fixes xs :: "real list"
  assumes "sorted_wrt (\<ge>) xs" "mset xs = mset ys"
  shows "xs = rev (sort ys)"
proof -
  have "sorted (rev xs)" using assms(1) by (simp add: sorted_wrt_rev)
  moreover have "mset (rev xs) = mset ys" using assms(2) by simp
  ultimately have "sort ys = rev xs" by (metis properties_for_sort)
  then show ?thesis by simp
qed

lemma sort_values_desc_values:
  "map snd (sort_values_desc s) = rev (sort (map snd s))"
proof (rule descending_unique)
  show "sorted_wrt (\<ge>) (map snd (sort_values_desc s))"
    by (rule sort_values_desc_sorted)
  have "mset (map snd (sort_values_desc s)) = image_mset snd (mset (sort_values_desc s))"
    by simp
  also have "\<dots> = image_mset snd (mset s)"
    by (simp only: sort_values_desc_mset)
  finally show "mset (map snd (sort_values_desc s)) = mset (map snd s)" by simp
qed

lemma sorted_series_length: "length (reset_index_drop (sort_values_desc col)) = length col"
  by (simp add: reset_index_drop_def sort_values_desc_length)

lemma sorted_series_values:
  "map snd (reset_index_drop (sort_values_desc col)) = rev (sort (map snd col))"
  by (simp add: reset_index_drop_def sort_values_desc_length sort_values_desc_values)

text \<open>
  What the function does on a column of the table, whatever the rounding: whenever it
  returns, the values are the prices in non-increasing order and there is one label per
  price.
\<close>

lemma get_price_duration_cases:
  assumes "buses_t_marginal_price n bus = Some col"
  shows "get_price_duration rnd n bus =
           (if col = [] then Inl ZeroDivisionError
            else case arange rnd 0 100 (rnd (100 / real (length col))) of
                   Inl e \<Rightarrow> Inl e
                 | Inr idx \<Rightarrow>
                     if length idx \<noteq> length col then Inl ValueError
                     else Inr (zip idx (rev (sort (map snd col)))))"
proof (cases "col = []")
  case True
  then show ?thesis
    by (simp add: get_price_duration_def assms reset_index_drop_def sort_values_desc_def
        py_div_def)
next
  case False
  let ?s = "reset_index_drop (sort_values_desc col)"
  have len: "real (length ?s) \<noteq> 0"
    using False by (simp add: sorted_series_length)
  have d: "py_div rnd 100 (real (length ?s)) = Inr (rnd (100 / real (length col)))"
    using len by (simp add: py_div_def sorted_series_length)
  have "get_price_duration rnd n bus =
          (case arange rnd 0 100 (rnd (100 / real (length col))) of
             Inl e \<Rightarrow> Inl e
           | Inr idx \<Rightarrow> set_index idx ?s)"
    by (simp add: get_price_duration_def assms Let_def d)
  then show ?thesis
    unfolding set_index_def sorted_series_length sorted_series_values
    using False by simp
qed

lemma get_price_duration_values:
  assumes "buses_t_marginal_price n bus = Some col"
    and "get_price_duration rnd n bus = Inr out"
  shows "map snd out = rev (sort (map snd col)) \<and> length out = length col"
  using assms(2) unfolding get_price_duration_cases [OF assms(1)]
  by (auto split: if_splits sum.splits)

text \<open>
  Over exact arithmetic the labels are \<open>k * 100 / L\<close> for \<open>k < L\<close>, and the function returns
  for every non-empty column.
\<close>

lemma arange_exact:
  assumes "step \<noteq> 0"
  shows "arange exact start stop step
         = Inr (map (\<lambda>i. of_int start + real i * step)
                    [0..<nat \<lceil>of_int (stop - start) / step\<rceil>])"
  using assms by (simp add: arange_def py_div_def exact_def Let_def)

lemma arange_percent:
  assumes "0 < L"
  shows "arange exact 0 100 (exact (100 / real L))
         = Inr (map (\<lambda>i. real i * 100 / real L) [0..<L])"
proof -
  have "100 / (100 / real L) = real L" using assms by simp
  then have "nat \<lceil>of_int (100 - 0) / (100 / real L)\<rceil> = L" by simp
  moreover have "100 / real L \<noteq> 0" using assms by simp
  ultimately show ?thesis by (simp add: arange_exact exact_def)
qed

lemma get_price_duration_exact:
  assumes "buses_t_marginal_price n bus = Some col" "col \<noteq> []"
  shows "get_price_duration exact n bus =
         Inr (zip (map (\<lambda>k. real k * 100 / real (length col)) [0..<length col])
                  (rev (sort (map snd col))))"
proof -
  have pos: "0 < length col" using assms(2) by simp
  show ?thesis
    unfolding get_price_duration_cases [OF assms(1)] arange_percent [OF pos]
    using assms(2) by simp
qed

text \<open>
  In binary64 the quotient \<^verbatim>\<open>100 / 29\<close> is rounded down, so that \<^verbatim>\<open>100 / (100 / 29)\<close>
  is \<open>29 + 2^-48\<close> and its ceiling 30.
\<close>

lemma arange_29:
  "arange f64_round 0 100 (f64_round (100 / real 29)) = Inr idx \<Longrightarrow> length idx = 30"
proof -
  have s: "f64_round (100 / real 29) = 3882413471871117 / 2 ^ 50"
    by code_simp
  have q: "py_div f64_round (f64_round (of_int (100 - 0))) (3882413471871117 / 2 ^ 50)
           = Inr (29 + 1 / 2 ^ 48)"
    unfolding py_div_def by code_simp
  have c: "nat \<lceil>(29::real) + 1 / 2 ^ 48\<rceil> = 30"
    by code_simp
  assume "arange f64_round 0 100 (f64_round (100 / real 29)) = Inr idx"
  then show ?thesis
    unfolding s arange_def q by (auto simp: Let_def c)
qed

lemma arange_29_ok:
  "\<exists>idx. arange f64_round 0 100 (f64_round (100 / real 29)) = Inr idx"
proof -
  have s: "f64_round (100 / real 29) = 3882413471871117 / 2 ^ 50"
    by code_simp
  have q: "py_div f64_round (f64_round (of_int (100 - 0))) (3882413471871117 / 2 ^ 50)
           = Inr (29 + 1 / 2 ^ 48)"
    unfolding py_div_def by code_simp
  show ?thesis
    unfolding s arange_def q by (simp add: Let_def)
qed

lemma price_29:
  assumes "buses_t_marginal_price n bus = Some col" "length col = 29"
  shows "get_price_duration f64_round n bus = Inl ValueError"
proof -
  have ne: "col \<noteq> []" using assms(2) by auto
  obtain idx where i: "arange f64_round 0 100 (f64_round (100 / real 29)) = Inr idx"
    using arange_29_ok by blast
  have "length idx = 30" using i by (rule arange_29)
  then show ?thesis
    unfolding get_price_duration_cases [OF assms(1)] assms(2) i using ne by simp
qed

lemma example_network_col:
  "buses_t_marginal_price example_network ''electricity'' = Some [(0, 5), (1, 50), (2, 20)]"
  by (simp add: example_network_def)

lemma example_network_empty_col:
  "buses_t_marginal_price example_network ''hydrogen'' = Some []"
  by (simp add: example_network_def)

lemma month_network_col:
  "buses_t_marginal_price month_network ''electricity''
   = Some (map (\<lambda>i. (i, real i)) [0..<29])"
  by (simp add: month_network_def)

text \<open>
  C2. The claim is that \<open>get_price_duration\<close> returns the prices in non-increasing order
  for every non-empty column. With the arithmetic of the machine it does not return for a
  column of 29 prices: it fails with a ValueError. (When it returns, the values are as
  claimed: \<open>get_price_duration_values\<close>.)
\<close>

theorem price_duration_fails_on_29_prices:
  assumes "buses_t_marginal_price n bus = Some col" "length col = 29"
  shows "get_price_duration f64_round n bus = Inl ValueError"
proof -
  have ne: "col \<noteq> []" using assms(2) by auto
  obtain idx where i: "arange f64_round 0 100 (f64_round (100 / real 29)) = Inr idx"
    using arange_29_ok by blast
  have "length idx = 30" using i by (rule arange_29)
  then show ?thesis
    unfolding get_price_duration_cases [OF assms(1)] assms(2) i using ne by simp
qed

theorem price_duration_fails_on_29_prices_witness:
  "buses_t_marginal_price month_network ''electricity''
     = Some (map (\<lambda>i. (i, real i)) [0..<29])
   \<and> length (map (\<lambda>i. (i, real i)) [0..<29]) = 29
   \<and> get_price_duration f64_round month_network ''electricity'' = Inl ValueError"
proof -
  have l: "length (map (\<lambda>i. (i, real i)) [0..<29]) = 29" by simp
  show ?thesis
    using price_duration_fails_on_29_prices [OF month_network_col l] month_network_col l
    by blast
qed

text \<open>
  C3. The claim is that the index of the returned series has as many labels as there are
  prices. For 29 prices, \<^verbatim>\<open>np.arange(0, 100, 100 / 29)\<close> has 30 labels with the arithmetic
  of the machine, and the assignment of the index fails. (Over exact arithmetic the index
  is as claimed: \<open>get_price_duration_exact\<close>.)
\<close>

theorem percent_index_of_29_prices_has_30_labels:
  "\<exists>step idx. py_div f64_round 100 (real 29) = Inr step
      \<and> arange f64_round 0 100 step = Inr idx
      \<and> length idx = 30
      \<and> set_index idx (reset_index_drop (sort_values_desc (map (\<lambda>i. (i, real i)) [0..<29])))
          = Inl ValueError"
proof -
  obtain idx where i: "arange f64_round 0 100 (f64_round (100 / real 29)) = Inr idx"
    using arange_29_ok by blast
  have l: "length idx = 30" using i by (rule arange_29)
  have s: "py_div f64_round 100 (real 29) = Inr (f64_round (100 / real 29))"
    by (simp add: py_div_def)
  have "set_index idx (reset_index_drop (sort_values_desc (map (\<lambda>i. (i, real i)) [0..<29])))
        = Inl ValueError"
    by (simp add: set_index_def l sorted_series_length)
  then show ?thesis using s i l by blast
qed

text \<open>
  C9. When the marginal-price column of the bus has no rows, \<open>get_price_duration\<close> fails
  with the division by zero of \<^verbatim>\<open>100 / len(s.index)\<close>; it does not return an empty
  series.
\<close>

theorem price_duration_empty_fails:
  assumes "buses_t_marginal_price n bus = Some []"
  shows "get_price_duration rnd n bus = Inl ZeroDivisionError
         \<and> get_price_duration rnd n bus \<noteq> Inr []"
  by (simp add: get_price_duration_cases [OF assms])

theorem price_duration_empty_fails_witness:
  "buses_t_marginal_price example_network ''hydrogen'' = Some []
   \<and> get_price_duration f64_round example_network ''hydrogen'' = Inl ZeroDivisionError"
  using price_duration_empty_fails [OF example_network_empty_col, of f64_round]
  by (simp add: example_network_empty_col)

section \<open>Properties of the cost table\<close>

lemma str_contains_sublist: "str_contains pat s \<longleftrightarrow> sublist pat s"
  by (induction s) (auto simp: sublist_Cons_right)

lemma scale_kW_length: "length (scale_kW rnd rows) = length rows"
  by (simp add: scale_kW_def)

lemma scale_kW_nth:
  assumes "i < length rows"
  shows "technology (scale_kW rnd rows ! i) = technology (rows ! i)
       \<and> parameter (scale_kW rnd rows ! i) = parameter (rows ! i)
       \<and> row_unit (scale_kW rnd rows ! i) = row_unit (rows ! i)
       \<and> row_value (scale_kW rnd rows ! i) =
           (if sublist ''/kW'' (row_unit (rows ! i))
            then map_option (\<lambda>v. rnd (v * rnd 1000)) (row_value (rows ! i))
            else row_value (rows ! i))"
  using assms
  by (cases "row_value (rows ! i)") (simp_all add: scale_kW_def str_contains_sublist np_mul_def)

lemma scale_kW_keys:
  "map (\<lambda>r. (technology r, parameter r)) (scale_kW rnd rows)
   = map (\<lambda>r. (technology r, parameter r)) rows"
  by (simp add: scale_kW_def)

lemma find_row:
  assumes "distinct (map (\<lambda>r. (technology r, parameter r)) rows)" "r \<in> set rows"
  shows "find (\<lambda>x. technology x = technology r \<and> parameter x = parameter r) rows = Some r"
  using assms
proof (induction rows)
  case Nil
  then show ?case by simp
next
  case (Cons a rows)
  then show ?case by (auto simp: image_iff)
qed

lemma unstack_ok:
  assumes "distinct (map (\<lambda>r. (technology r, parameter r)) rows)"
  shows "\<exists>g. unstack rows = Inr g
           \<and> set (index g) = technology ` set rows \<and> set (columns g) = parameter ` set rows
           \<and> (\<forall>r \<in> set rows. cells g (technology r) (parameter r) = row_value r)
           \<and> (\<forall>t p. (t, p) \<notin> (\<lambda>r. (technology r, parameter r)) ` set rows
                    \<longrightarrow> cells g t p = None)"
proof -
  have miss: "find (\<lambda>r. technology r = t \<and> parameter r = p) rows = None"
    if "(t, p) \<notin> (\<lambda>r. (technology r, parameter r)) ` set rows" for t p
    using that by (auto simp: find_None_iff)
  show ?thesis
    using assms by (simp add: unstack_def find_row miss)
qed

lemma fillna_cells:
  "cells (fillna (cost_defaults rnd) g) t p =
     (case cells g t p of
        Some v \<Rightarrow> Some v
      | None \<Rightarrow> if t \<in> set (index g) \<and> p \<in> set (columns g)
                then (if p = ''discount rate'' then Some (rnd (7 / 100))
                      else if p = ''lifetime'' then Some (rnd 20)
                      else if p = ''FOM'' then Some (rnd 0)
                      else None)
                else None)"
proof (cases "cells g t p")
  case None
  then show ?thesis by (auto simp: fillna_def cost_defaults_def)
next
  case (Some v)
  then show ?thesis by (simp add: fillna_def)
qed

lemma fillna_labels: "index (fillna d g) = index g \<and> columns (fillna d g) = columns g"
  by (simp add: fillna_def)

lemma example_costs_distinct:
  "distinct (map (\<lambda>r. (technology r, parameter r)) example_costs)"
  by (simp add: example_costs_def)

lemma example_costs_scaled:
  "map row_value (scale_kW exact example_costs)
   = [Some 1040000, Some 30, None, Some 600000, Some 0, Some 2]"
  by (simp add: example_costs_def scale_kW_def np_mul_def exact_def)

lemma example_costs_prepared:
  "\<exists>f. prepare_costs exact example_costs = Inr f
     \<and> cells f ''onwind'' ''investment'' = Some 1040000
     \<and> cells f ''onwind'' ''lifetime'' = Some 30
     \<and> cells f ''solar'' ''lifetime'' = Some 20
     \<and> cells f ''onwind'' ''FOM'' = Some 0
     \<and> cells f ''onwind'' ''discount rate'' = Some (7 / 100)
     \<and> cells f ''solar'' ''discount rate'' = Some 0
     \<and> cells f ''solar'' ''VOM'' = Some 2
     \<and> cells f ''onwind'' ''VOM'' = None"
  by (simp add: prepare_costs_def example_costs_def scale_kW_def unstack_def fillna_def
      cost_defaults_def np_mul_def exact_def)

text \<open>
  C10. The scaling step multiplies by 1000 the value of the rows whose unit contains
  \<^verbatim>\<open>/kW\<close> and of no other row, and changes nothing else in a row. In the wide table made
  from the scaled rows, \<open>fillna\<close> keeps every cell that holds a value, and gives an empty
  cell 0.07 in the column discount rate, 20 in lifetime, 0 in FOM, and nothing in any
  other column. (The product and the literal 0.07 are rounded as the arithmetic rounds.)
\<close>

theorem cost_preprocessing:
  assumes "rnd = exact \<or> rnd = f64_round"
    and "distinct (map (\<lambda>r. (technology r, parameter r)) rows)"
  shows "length (scale_kW rnd rows) = length rows
       \<and> (\<forall>i < length rows.
            technology (scale_kW rnd rows ! i) = technology (rows ! i)
          \<and> parameter (scale_kW rnd rows ! i) = parameter (rows ! i)
          \<and> row_unit (scale_kW rnd rows ! i) = row_unit (rows ! i)
          \<and> row_value (scale_kW rnd rows ! i) =
              (if sublist ''/kW'' (row_unit (rows ! i))
               then map_option (\<lambda>v. rnd (v * 1000)) (row_value (rows ! i))
               else row_value (rows ! i)))
       \<and> (\<exists>g f. unstack (scale_kW rnd rows) = Inr g \<and> prepare_costs rnd rows = Inr f
            \<and> (\<forall>r \<in> set (scale_kW rnd rows).
                  cells g (technology r) (parameter r) = row_value r)
            \<and> index f = index g \<and> columns f = columns g
            \<and> (\<forall>t p. cells f t p =
                  (case cells g t p of
                     Some v \<Rightarrow> Some v
                   | None \<Rightarrow> if t \<in> set (index g) \<and> p \<in> set (columns g)
                             then (if p = ''discount rate'' then Some (rnd (7 / 100))
                                   else if p = ''lifetime'' then Some 20
                                   else if p = ''FOM'' then Some 0
                                   else None)
                             else None)))"
proof -
  note lits = rounding_literals [OF assms(1)]
  have "distinct (map (\<lambda>r. (technology r, parameter r)) (scale_kW rnd rows))"
    using assms(2) by (simp only: scale_kW_keys)
  from unstack_ok [OF this] obtain g where g: "unstack (scale_kW rnd rows) = Inr g"
    and c: "\<forall>r \<in> set (scale_kW rnd rows). cells g (technology r) (parameter r) = row_value r"
    by blast
  have f: "prepare_costs rnd rows = Inr (fillna (cost_defaults rnd) g)"
    by (simp add: prepare_costs_def g)
  show ?thesis
    using g c f scale_kW_length [of rnd rows] scale_kW_nth [of _ rows rnd, unfolded lits]
      fillna_cells [of rnd g, unfolded lits] fillna_labels [of "cost_defaults rnd" g]
    by blast
qed

theorem cost_preprocessing_witness:
  "(exact = exact \<or> exact = f64_round)
   \<and> distinct (map (\<lambda>r. (technology r, parameter r)) example_costs)
   \<and> map row_value (scale_kW exact example_costs)
       = [Some 1040000, Some 30, None, Some 600000, Some 0, Some 2]
   \<and> (\<exists>f. prepare_costs exact example_costs = Inr f
        \<and> cells f ''onwind'' ''investment'' = Some 1040000
        \<and> cells f ''solar'' ''lifetime'' = Some 20
        \<and> cells f ''onwind'' ''FOM'' = Some 0
        \<and> cells f ''onwind'' ''discount rate'' = Some (7 / 100)
        \<and> cells f ''solar'' ''discount rate'' = Some 0
        \<and> cells f ''onwind'' ''VOM'' = None)"
  using cost_preprocessing [OF _ example_costs_distinct, of exact]
    example_costs_distinct example_costs_scaled example_costs_prepared
  by blast

section \<open>Where the annuity factor is defined\<close>





section \<open>Properties of the notebooks\<close>

subsection \<open>Runs and their first failure\<close>

lemma and_then_Inl:
  "and_then m k = Inl e \<longleftrightarrow> m = Inl e \<or> (\<exists>x. m = Inr x \<and> k x = Inl e)"
  by (cases m) (simp_all add: and_then_def)

lemma and_then_Inr:
  "and_then m k = Inr y \<longleftrightarrow> (\<exists>x. m = Inr x \<and> k x = Inr y)"
  by (cases m) (simp_all add: and_then_def)

lemma run_append:
  "run env (xs @ ys) s = (case run env xs s of Inl e \<Rightarrow> Inl e | Inr s' \<Rightarrow> run env ys s')"
  by (induction xs arbitrary: s) (auto split: sum.splits)

lemma run_first_failure:
  assumes "run env pre s0 = Inr s" "f env s = Inl e"
  shows "run env (pre @ (t, f) # post) s0 = Inl e"
  using assms by (simp add: run_append)

lemma run_failure_source:
  assumes "run env stmts s0 = Inl e"
  shows "\<exists>pre t f post s. stmts = pre @ (t, f) # post \<and> run env pre s0 = Inr s \<and> f env s = Inl e"
  using assms
proof (induction stmts arbitrary: s0)
  case Nil
  then show ?case by simp
next
  case (Cons st stmts)
  obtain t f where st: "st = (t, f)" by (cases st)
  show ?case
  proof (cases "f env s0")
    case (Inl e')
    then have "e' = e" using Cons.prems st by simp
    then have "st # stmts = [] @ (t, f) # stmts \<and> run env [] s0 = Inr s0 \<and> f env s0 = Inl e"
      using Inl st by simp
    then show ?thesis by blast
  next
    case (Inr s1)
    then have "run env stmts s1 = Inl e" using Cons.prems st by simp
    from Cons.IH [OF this] obtain pre t' f' post s where
      p: "stmts = pre @ (t', f') # post" "run env pre s1 = Inr s" "f' env s = Inl e"
      by blast
    have "st # stmts = (st # pre) @ (t', f') # post \<and> run env (st # pre) s0 = Inr s
          \<and> f' env s = Inl e"
      using p Inr st by simp
    then show ?thesis by blast
  qed
qed

lemma run_error_in:
  assumes "run env stmts s0 = Inl e"
    and "\<And>t f s. (t, f) \<in> set stmts \<Longrightarrow> f env s = Inl e \<Longrightarrow> P"
  shows P
proof -
  from run_failure_source [OF assms(1)] obtain pre t f post s where
    "stmts = pre @ (t, f) # post" "f env s = Inl e" by blast
  then show ?thesis using assms(2) [of t f s] by auto
qed

subsection \<open>The exceptions of each statement\<close>

lemma network_call_Inl: "network_call call env s = Inl e \<longleftrightarrow> call env s = Inl e"
  by (simp add: network_call_def and_then_Inl)

lemma eval_kwargs_Inl:
  "eval_kwargs kws = Inl e \<Longrightarrow> \<exists>k. (k, Inl e) \<in> set kws"
proof (induction kws)
  case Nil
  then show ?case by simp
next
  case (Cons kv kws)
  obtain k v where kv: "kv = (k, v)" by (cases kv)
  from Cons.prems show ?case
    unfolding kv by (auto simp: and_then_Inl dest: Cons.IH)
qed

lemma apply_rows_Inl: "apply_rows g idx = Inl e \<Longrightarrow> \<exists>t. g t = Inl e"
  by (induction idx) (auto simp: and_then_Inl)

lemma py_div_Inl: "py_div rnd x y = Inl e \<Longrightarrow> own_error e"
  by (auto simp: py_div_def split: if_splits)

lemma arange_Inl: "arange rnd a b step = Inl e \<Longrightarrow> own_error e"
  by (auto simp: arange_def Let_def split: sum.splits dest: py_div_Inl)

lemma set_index_Inl: "set_index idx s = Inl e \<Longrightarrow> own_error e"
  by (auto simp: set_index_def split: if_splits)

lemma get_price_duration_Inl: "get_price_duration rnd n bus = Inl e \<Longrightarrow> own_error e"
  by (auto simp: get_price_duration_def Let_def
      split: option.splits sum.splits dest: py_div_Inl arange_Inl set_index_Inl)

lemma prepare_costs_Inl: "prepare_costs rnd rows = Inl e \<Longrightarrow> own_error e"
  by (auto simp: prepare_costs_def unstack_def split: sum.splits if_splits)

lemma getitem_Inl: "getitem f c = Inl e \<Longrightarrow> own_error e"
  by (auto simp: getitem_def split: if_splits)

lemma cell_at_Inl: "cell_at f r c = Inl e \<Longrightarrow> own_error e"
  by (auto simp: cell_at_def split: if_splits)

lemma row_getitem_Inl: "row_getitem f t c = Inl e \<Longrightarrow> own_error e"
  by (auto simp: row_getitem_def split: if_splits)

lemma getattr_Inl: "getattr ts c = Inl e \<Longrightarrow> own_error e"
  by (auto simp: getattr_def split: option.splits)

lemma loc_update_Inl: "loc_update row col f n = Inl e \<Longrightarrow> own_error e"
  by (auto simp: loc_update_def split: option.splits)

lemma annuity_numpy_returns: "\<exists>a. annuity (numpy_float64 rnd) r n = Inr a"
  by (simp add: annuity_def numpy_float64_def)

lemma cost_Inl: "cost s r c = Inl e \<Longrightarrow> own_error e"
  by (auto simp: cost_def and_then_Inl dest: cell_at_Inl)

lemma profile_Inl: "profile s c = Inl e \<Longrightarrow> own_error e"
  by (auto simp: profile_def and_then_Inl dest: getattr_Inl)

lemma external_errorI:
  "read_csv_costs env u = Inl e \<Longrightarrow> external_error env e"
  "read_csv_ts env u = Inl e \<Longrightarrow> external_error env e"
  "new_network env = Inl e \<Longrightarrow> external_error env e"
  "model_energy env = Inl e \<Longrightarrow> external_error env e"
  "add env n c ns kw = Inl e \<Longrightarrow> external_error env e"
  "remove env n c name = Inl e \<Longrightarrow> external_error env e"
  "set_snapshots env n sn = Inl e \<Longrightarrow> external_error env e"
  "optimize env n solver = Inl e \<Longrightarrow> external_error env e"
  "statistics env n name kws = Inl e \<Longrightarrow> external_error env e"
  "plot env p = Inl e \<Longrightarrow> external_error env e"
  unfolding external_error_def by blast+

lemma fails_well_add:
  assumes "kwargs_well kw"
  shows "fails_well env (stmt_add cls names kw)"
  unfolding fails_well_def stmt_add_def
  using assms
  by (auto simp: network_call_Inl and_then_Inl kwargs_well_def
      dest: eval_kwargs_Inl external_errorI)

lemma fails_well_remove: "fails_well env (stmt_remove cls name)"
  unfolding fails_well_def stmt_remove_def
  by (auto simp: network_call_Inl dest: external_errorI)

lemma fails_well_optimize: "fails_well env (stmt_optimize solver)"
  unfolding fails_well_def stmt_optimize_def
  by (auto simp: network_call_Inl dest: external_errorI)

lemma fails_well_show: "fails_well env stmt_show"
  unfolding fails_well_def stmt_show_def by simp

lemma fails_well_plot_price_duration: "fails_well env (stmt_plot_price_duration rnd label)"
  unfolding fails_well_def stmt_plot_price_duration_def
  by (auto simp: and_then_Inl dest: external_errorI get_price_duration_Inl)

lemma fails_well_capacities: "fails_well env (stmt_capacities first name)"
  unfolding fails_well_def stmt_capacities_def
  by (auto simp: and_then_Inl dest: external_errorI)

lemma fails_well_plot_dispatch: "fails_well env (stmt_plot_dispatch name)"
  unfolding fails_well_def stmt_plot_dispatch_def
  by (auto simp: and_then_Inl split: option.splits dest: external_errorI)

lemma fails_well_loc_times: "fails_well env (stmt_loc_times rnd row col c)"
  unfolding fails_well_def stmt_loc_times_def
  by (auto simp: network_call_Inl dest: loc_update_Inl)

lemma fails_well_loc_over: "fails_well env (stmt_loc_over rnd row col c)"
  unfolding fails_well_def stmt_loc_over_def
  by (auto simp: network_call_Inl dest: loc_update_Inl)

lemma fails_well_costs: "fails_well env (stmt_costs rnd)"
  unfolding fails_well_def stmt_costs_def
  by (auto simp: and_then_Inl dest: external_errorI prepare_costs_Inl)

lemma fails_well_marginal_cost: "fails_well env (stmt_marginal_cost rnd)"
  unfolding fails_well_def stmt_marginal_cost_def
  by (auto simp: and_then_Inl dest: getitem_Inl)

lemma fails_well_annuity: "fails_well env (stmt_annuity rnd)"
proof -
  have "own_error e"
    if "apply_rows
          (\<lambda>x. and_then (row_getitem f x ''discount rate'')
                  (\<lambda>r. and_then (row_getitem f x ''lifetime'')
                    (\<lambda>n. annuity (numpy_float64 rnd) r n)))
          idx = Inl e" for f idx e
  proof -
    from apply_rows_Inl [OF that] obtain t where
      "and_then (row_getitem f t ''discount rate'')
         (\<lambda>r. and_then (row_getitem f t ''lifetime'')
           (\<lambda>n. annuity (numpy_float64 rnd) r n)) = Inl e" by blast
    then show ?thesis
      using annuity_numpy_returns [of rnd]
      by (auto simp: and_then_Inl dest: row_getitem_Inl) (metis sum.distinct(1))
  qed
  then show ?thesis
    unfolding fails_well_def stmt_annuity_def
    by (auto simp: and_then_Inl)
qed

lemma fails_well_capital_cost: "fails_well env (stmt_capital_cost rnd)"
  unfolding fails_well_def stmt_capital_cost_def
  by (auto simp: and_then_Inl dest: getitem_Inl)

lemma fails_well_ts: "fails_well env stmt_ts"
  unfolding fails_well_def stmt_ts_def
  by (auto simp: and_then_Inl dest: external_errorI)

lemma cost2_Inl: "cost2 s r c r' c' f = Inl e \<Longrightarrow> own_error e"
  by (auto simp: cost2_def and_then_Inl dest: cell_at_Inl)

lemma peak_Inl: "peak s c = Inl e \<Longrightarrow> own_error e"
  by (auto simp: peak_def and_then_Inl dest: getattr_Inl)

lemma quotient_Inl: "quotient rnd x y = Inl e \<Longrightarrow> own_error e"
  by (auto simp: quotient_def and_then_Inl dest: py_div_Inl)

lemma call_statistics_Inl:
  "call_statistics env n accessors = Inl e \<Longrightarrow> external_error env e"
proof (induction accessors)
  case Nil
  then show ?case by simp
next
  case (Cons a accessors)
  obtain name kw where a: "a = (name, kw)" by (cases a)
  from Cons.prems show ?case
    unfolding a by (auto simp: and_then_Inl dest: Cons.IH external_errorI)
qed

lemma fails_well_figure: "fails_well env (stmt_figure name)"
  unfolding fails_well_def stmt_figure_def
  by (auto simp: and_then_Inl dest: external_errorI)

lemma fails_well_statistics: "fails_well env (stmt_statistics accessors)"
  unfolding fails_well_def stmt_statistics_def
  by (auto simp: and_then_Inl dest: call_statistics_Inl)

lemma fails_well_model_energy: "fails_well env stmt_model_energy"
  unfolding fails_well_def stmt_model_energy_def
  by (auto simp: network_call_Inl dest: external_errorI)

lemma fails_well_new_network: "fails_well env stmt_new_network"
  unfolding fails_well_def stmt_new_network_def
  by (auto simp: network_call_Inl dest: external_errorI)

lemma fails_well_set_snapshots: "fails_well env stmt_set_snapshots"
  unfolding fails_well_def stmt_set_snapshots_def
  by (auto simp: network_call_Inl dest: external_errorI)

lemma fails_well_weightings: "fails_well env stmt_weightings"
  unfolding fails_well_def stmt_weightings_def
  by (auto simp: network_call_Inl)

lemma fails_well_plot_prices: "fails_well env stmt_plot_prices"
  unfolding fails_well_def stmt_plot_prices_def
  by (auto simp: and_then_Inl dest: external_errorI)

lemmas fails_well_statement =
  fails_well_remove fails_well_optimize fails_well_show fails_well_plot_price_duration
  fails_well_capacities fails_well_plot_dispatch fails_well_loc_times fails_well_loc_over
  fails_well_costs fails_well_marginal_cost fails_well_annuity fails_well_capital_cost
  fails_well_ts fails_well_figure fails_well_statistics fails_well_model_energy
  fails_well_new_network fails_well_set_snapshots fails_well_weightings
  fails_well_plot_prices

lemmas kwarg_Inl = cost_Inl cost2_Inl profile_Inl peak_Inl quotient_Inl

lemma demand_elasticity_fails_well:
  "(st :: ('s, 'z) statement) \<in> set (demand_elasticity rnd) \<Longrightarrow> fails_well env st"
  unfolding demand_elasticity_def
  by (auto simp: fails_well_statement intro!: fails_well_add
      simp: kwargs_well_def dest: kwarg_Inl kwarg_Inl [OF sym])

lemma capacity_expansion_fails_well:
  "(st :: ('s, 'z) statement) \<in> set (capacity_expansion rnd) \<Longrightarrow> fails_well env st"
  unfolding capacity_expansion_def
  by (auto simp: fails_well_statement intro!: fails_well_add
      simp: kwargs_well_def dest: kwarg_Inl kwarg_Inl [OF sym])

subsection \<open>Statements that leave the network as it is\<close>

lemma keeps_network_show: "keeps_network stmt_show"
  by (auto simp: keeps_network_def stmt_show_def)

lemma keeps_network_figure: "keeps_network (stmt_figure name)"
  by (auto simp: keeps_network_def stmt_figure_def and_then_Inr)

lemma keeps_network_statistics: "keeps_network (stmt_statistics accessors)"
  by (auto simp: keeps_network_def stmt_statistics_def and_then_Inr)

lemma keeps_network_plot_price_duration:
  "keeps_network (stmt_plot_price_duration rnd label)"
  by (auto simp: keeps_network_def stmt_plot_price_duration_def and_then_Inr)

lemma keeps_network_capacities: "keeps_network (stmt_capacities first name)"
  by (auto simp: keeps_network_def stmt_capacities_def and_then_Inr)

lemma keeps_network_plot_dispatch: "keeps_network (stmt_plot_dispatch name)"
  by (auto simp: keeps_network_def stmt_plot_dispatch_def and_then_Inr split: option.splits)

lemma keeps_network_plot_prices: "keeps_network stmt_plot_prices"
  by (auto simp: keeps_network_def stmt_plot_prices_def and_then_Inr)

lemma keeps_network_costs: "keeps_network (stmt_costs rnd)"
  by (auto simp: keeps_network_def stmt_costs_def and_then_Inr)

lemma keeps_network_marginal_cost: "keeps_network (stmt_marginal_cost rnd)"
  by (auto simp: keeps_network_def stmt_marginal_cost_def and_then_Inr)

lemma keeps_network_annuity: "keeps_network (stmt_annuity rnd)"
  by (auto simp: keeps_network_def stmt_annuity_def and_then_Inr)

lemma keeps_network_capital_cost: "keeps_network (stmt_capital_cost rnd)"
  by (auto simp: keeps_network_def stmt_capital_cost_def and_then_Inr)

lemma keeps_network_ts: "keeps_network stmt_ts"
  by (auto simp: keeps_network_def stmt_ts_def and_then_Inr)

lemmas keeps_network_statement =
  keeps_network_show keeps_network_figure keeps_network_statistics
  keeps_network_plot_price_duration keeps_network_capacities keeps_network_plot_dispatch
  keeps_network_plot_prices keeps_network_costs keeps_network_marginal_cost
  keeps_network_annuity keeps_network_capital_cost keeps_network_ts

lemmas statement_tag =
  stmt_add_def stmt_remove_def stmt_optimize_def stmt_model_energy_def
  stmt_new_network_def stmt_set_snapshots_def stmt_weightings_def stmt_loc_times_def
  stmt_loc_over_def

lemma demand_elasticity_keeps_network:
  "(st :: ('s, 'z) statement) \<in> set (demand_elasticity rnd) \<Longrightarrow>
   \<not> touches_network (fst st) \<Longrightarrow> keeps_network st"
  unfolding demand_elasticity_def
  by (auto simp: keeps_network_statement) (simp_all add: statement_tag)

lemma capacity_expansion_keeps_network:
  "(st :: ('s, 'z) statement) \<in> set (capacity_expansion rnd) \<Longrightarrow>
   \<not> touches_network (fst st) \<Longrightarrow> keeps_network st"
  unfolding capacity_expansion_def
  by (auto simp: keeps_network_statement) (simp_all add: statement_tag)

lemmas statement_fst =
  statement_tag stmt_show_def stmt_figure_def stmt_statistics_def
  stmt_plot_price_duration_def stmt_capacities_def stmt_plot_dispatch_def
  stmt_plot_prices_def stmt_costs_def stmt_marginal_cost_def stmt_annuity_def
  stmt_capital_cost_def stmt_ts_def

lemma demand_elasticity_tags:
  "map fst (demand_elasticity rnd :: ('s, 'z) statement list) =
     [Construct, Remove ''Load'' ''demand'', Remove ''Generator'' ''load shedding'',
      Add ''Load'' [''demand''], Optimize, Report, Report, Report,
      Add ''Generator'' [''load-shedding''], Optimize, Report, Report,
      Report, Remove ''Generator'' ''load-shedding'', Add ''Generator'' [''load-shedding''],
      Optimize, Report, Report, Report,
      Assign ''generators'' ''load-shedding'' ''p_nom_max'',
      Assign ''generators'' ''load-shedding'' ''marginal_cost_quadratic'',
      Optimize, Report, Report, Report]"
  by (simp add: demand_elasticity_def statement_fst)

lemma capacity_expansion_tags:
  "map fst (capacity_expansion rnd :: ('s, 'z) statement list) =
     [Compute, Compute, Compute, Compute, Compute, Report,
      Construct, Add ''Bus'' [''electricity''], Set_snapshots,
      Assign ''snapshot_weightings'' '':'' '':'',
      Add ''Carrier'' carriers, Add ''Load'' [''demand''],
      Add ''Generator'' [''load shedding''], Add ''Generator'' [''wind''],
      Add ''Generator'' [''solar''], Add ''StorageUnit'' [''battery storage''],
      Add ''Bus'' [''hydrogen''], Add ''Link'' [''electrolysis''], Add ''Link'' [''turbine''],
      Add ''Store'' [''hydrogen storage''],
      Optimize, Report, Report, Report, Report, Report, Report]"
  by (simp add: capacity_expansion_def statement_fst)

lemma loc_update_effect:
  assumes "loc_update row col f n = Inr n'"
  shows "\<exists>r v. generators n row = Some r \<and> r col = Some v
           \<and> n' = n\<lparr>generators := (generators n)(row \<mapsto> r(col \<mapsto> f v))\<rparr>"
  using assms by (auto simp: loc_update_def split: option.splits)

subsection \<open>Example runs\<close>

lemma calm_never_fails: "never_fails calm"
  by (simp add: never_fails_def external_error_def calm_def)

lemma still_network_col: "buses_t_marginal_price still_network ''electricity'' = Some []"
  by (simp add: still_network_def)

lemma run_calm_prefix:
  "run calm [stmt_model_energy, stmt_remove ''Load'' ''demand'',
             stmt_remove ''Generator'' ''load shedding'',
             stmt_add ''Load'' [''demand'']
               (\<lambda>s. [(''bus'', Inr (Str ''electricity'')), (''p_set'', Inr (Num (Some 100)))]),
             stmt_optimize None,
             stmt_figure ''subplots''] initial
   = Inr (initial\<lparr>var_n := still_network\<rparr>)"
  by (simp add: stmt_model_energy_def stmt_remove_def stmt_add_def stmt_optimize_def
      stmt_figure_def network_call_def and_then_def calm_def)

lemma fifth_f64: "np_div f64_round (Some 10) (Some (f64_round (2 / 10))) = Some 50"
  unfolding np_div_def by code_simp

lemma loc_over_elastic:
  "snd (stmt_loc_over f64_round ''load-shedding'' ''marginal_cost_quadratic'' (2 / 10))
     calm elastic_state
   = Inr (elastic_state\<lparr>var_n := elastic_network\<lparr>generators :=
       (generators elastic_network)(''load-shedding'' \<mapsto>
          [''p_nom_max'' \<mapsto> None, ''marginal_cost_quadratic'' \<mapsto> Some 50])\<rparr>\<rparr>)"
proof -
  have lu: "loc_update ''load-shedding'' ''marginal_cost_quadratic'' F elastic_network
            = Inr (elastic_network\<lparr>generators :=
                (generators elastic_network)(''load-shedding'' \<mapsto>
                   [''p_nom_max'' \<mapsto> None, ''marginal_cost_quadratic'' \<mapsto> F (Some 10)])\<rparr>)"
    for F
    by (simp add: loc_update_def elastic_network_def)
  have n: "var_n elastic_state = elastic_network"
    by (simp add: elastic_state_def)
  show ?thesis
    unfolding stmt_loc_over_def snd_conv network_call_def n lu fifth_f64
    by (simp add: and_then_def)
qed

lemma figure_calm: "snd (stmt_figure ''subplots'') calm elastic_state = Inr elastic_state"
  by (simp add: stmt_figure_def and_then_def calm_def)

lemma run_stormy_prefix:
  "run stormy [stmt_model_energy, stmt_remove ''Load'' ''demand'',
               stmt_remove ''Generator'' ''load shedding'',
               stmt_add ''Load'' [''demand'']
                 (\<lambda>s. [(''bus'', Inr (Str ''electricity'')),
                       (''p_set'', Inr (Num (Some 100)))])] initial
   = Inr (initial\<lparr>var_n := still_network\<rparr>)"
  by (simp add: stmt_model_energy_def stmt_remove_def stmt_add_def
      network_call_def and_then_def stormy_def calm_def)

lemma stormy_optimize:
  "snd (stmt_optimize None) stormy (initial\<lparr>var_n := still_network\<rparr>)
   = Inl (ExternalError ''infeasible'')"
  by (simp add: stmt_optimize_def network_call_def and_then_def stormy_def)

subsection \<open>How the network is built and changed\<close>

text \<open>
  C4, as stated: every construction and mutation of the network goes through \<^verbatim>\<open>add\<close>,
  \<^verbatim>\<open>remove\<close> and \<^verbatim>\<open>optimize\<close>, and nothing else changes an attribute of a component
  after it is added. The notebook on demand elasticity has two statements that do: they
  assign to cells of \<^verbatim>\<open>n.generators\<close> in the row of the generator load-shedding, which
  the notebook has added before, and the second takes its quadratic marginal cost from
  10 to 50.
\<close>

theorem direct_assignment_counterexample:
  "other_mutations (demand_elasticity f64_round :: (nat, unit) statement list)
     = [Assign ''generators'' ''load-shedding'' ''p_nom_max'',
        Assign ''generators'' ''load-shedding'' ''marginal_cost_quadratic'']
   \<and> stmt_loc_over f64_round ''load-shedding'' ''marginal_cost_quadratic'' (2 / 10)
       \<in> set (demand_elasticity f64_round :: (nat, unit) statement list)
   \<and> generators (var_n elastic_state) ''load-shedding''
       = Some [''p_nom_max'' \<mapsto> None, ''marginal_cost_quadratic'' \<mapsto> Some 10]
   \<and> snd (stmt_loc_over f64_round ''load-shedding'' ''marginal_cost_quadratic'' (2 / 10))
       calm elastic_state
     = Inr (elastic_state\<lparr>var_n := elastic_network\<lparr>generators :=
         (generators elastic_network)(''load-shedding'' \<mapsto>
            [''p_nom_max'' \<mapsto> None, ''marginal_cost_quadratic'' \<mapsto> Some 50])\<rparr>\<rparr>)"
proof -
  have 1: "other_mutations (demand_elasticity f64_round :: (nat, unit) statement list)
     = [Assign ''generators'' ''load-shedding'' ''p_nom_max'',
        Assign ''generators'' ''load-shedding'' ''marginal_cost_quadratic'']"
    unfolding other_mutations_def demand_elasticity_tags by simp
  have 2: "stmt_loc_over f64_round ''load-shedding'' ''marginal_cost_quadratic'' (2 / 10)
       \<in> set (demand_elasticity f64_round :: (nat, unit) statement list)"
    by (simp add: demand_elasticity_def)
  have 3: "generators (var_n elastic_state) ''load-shedding''
       = Some [''p_nom_max'' \<mapsto> None, ''marginal_cost_quadratic'' \<mapsto> Some 10]"
    by (simp add: elastic_state_def elastic_network_def)
  show ?thesis
    using 1 2 3 loc_over_elastic by (intro conjI)
qed

text \<open>
  C4, amended. Apart from making the network object and from \<^verbatim>\<open>add\<close>, \<^verbatim>\<open>remove\<close> and
  \<^verbatim>\<open>optimize\<close>, the statements that change the network are: in the notebook on capacity
  expansion \<^verbatim>\<open>n.set_snapshots\<close> and the assignment of \<open>RESOLUTION\<close> to every cell of
  \<^verbatim>\<open>n.snapshot_weightings\<close>; in the notebook on demand elasticity the two assignments to
  \<^verbatim>\<open>p_nom_max\<close> (times 0.2) and \<^verbatim>\<open>marginal_cost_quadratic\<close> (divided by 0.2) of the
  generator load-shedding, which come after its \<^verbatim>\<open>add\<close> and before the next report. No
  statement that reports or computes changes the network, and each assignment changes the
  cells it names and nothing else.
\<close>

theorem network_mutations:
  "other_mutations (capacity_expansion rnd :: ('s, 'z) statement list)
     = [Set_snapshots, Assign ''snapshot_weightings'' '':'' '':'']
   \<and> other_mutations (demand_elasticity rnd :: ('s, 'z) statement list)
     = [Assign ''generators'' ''load-shedding'' ''p_nom_max'',
        Assign ''generators'' ''load-shedding'' ''marginal_cost_quadratic'']
   \<and> changed_after_add [] (map fst (capacity_expansion rnd :: ('s, 'z) statement list)) = []
   \<and> changed_after_add [] (map fst (demand_elasticity rnd :: ('s, 'z) statement list))
     = [Assign ''generators'' ''load-shedding'' ''p_nom_max'',
        Assign ''generators'' ''load-shedding'' ''marginal_cost_quadratic'']
   \<and> (\<forall>st \<in> set (capacity_expansion rnd @ demand_elasticity rnd :: ('s, 'z) statement list).
        \<not> touches_network (fst st) \<longrightarrow>
        (\<forall>env s s'. snd st env s = Inr s' \<longrightarrow> var_n s' = var_n s))
   \<and> (\<forall>(env :: ('s, 'z) ext) s s'. snd stmt_weightings env s = Inr s' \<longrightarrow>
        var_n s' = loc_set_all 3 (var_n s))
   \<and> (\<forall>(env :: ('s, 'z) ext) s s'.
        snd (stmt_loc_times rnd ''load-shedding'' ''p_nom_max'' (2 / 10)) env s = Inr s' \<longrightarrow>
        (\<exists>r v. generators (var_n s) ''load-shedding'' = Some r \<and> r ''p_nom_max'' = Some v
           \<and> var_n s' = (var_n s)\<lparr>generators := (generators (var_n s))
                (''load-shedding'' \<mapsto> r(''p_nom_max'' \<mapsto> np_mul rnd v (Some (rnd (2 / 10)))))\<rparr>))
   \<and> (\<forall>(env :: ('s, 'z) ext) s s'.
        snd (stmt_loc_over rnd ''load-shedding'' ''marginal_cost_quadratic'' (2 / 10)) env s
          = Inr s' \<longrightarrow>
        (\<exists>r v. generators (var_n s) ''load-shedding'' = Some r
           \<and> r ''marginal_cost_quadratic'' = Some v
           \<and> var_n s' = (var_n s)\<lparr>generators := (generators (var_n s))
                (''load-shedding'' \<mapsto>
                   r(''marginal_cost_quadratic'' \<mapsto> np_div rnd v (Some (rnd (2 / 10)))))\<rparr>))"
proof -
  have 1: "other_mutations (capacity_expansion rnd :: ('s, 'z) statement list)
     = [Set_snapshots, Assign ''snapshot_weightings'' '':'' '':'']"
    unfolding other_mutations_def capacity_expansion_tags by simp
  have 2: "other_mutations (demand_elasticity rnd :: ('s, 'z) statement list)
     = [Assign ''generators'' ''load-shedding'' ''p_nom_max'',
        Assign ''generators'' ''load-shedding'' ''marginal_cost_quadratic'']"
    unfolding other_mutations_def demand_elasticity_tags by simp
  have 3: "changed_after_add [] (map fst (capacity_expansion rnd :: ('s, 'z) statement list))
             = []"
    unfolding capacity_expansion_tags by (simp add: carriers_def)
  have 4: "changed_after_add [] (map fst (demand_elasticity rnd :: ('s, 'z) statement list))
     = [Assign ''generators'' ''load-shedding'' ''p_nom_max'',
        Assign ''generators'' ''load-shedding'' ''marginal_cost_quadratic'']"
    unfolding demand_elasticity_tags by simp
  have 5: "\<forall>st \<in> set (capacity_expansion rnd @ demand_elasticity rnd
                          :: ('s, 'z) statement list).
        \<not> touches_network (fst st) \<longrightarrow>
        (\<forall>env s s'. snd st env s = Inr s' \<longrightarrow> var_n s' = var_n s)"
    using capacity_expansion_keeps_network demand_elasticity_keeps_network
    unfolding keeps_network_def by (metis Un_iff set_append)
  have 6: "var_n s' = loc_set_all 3 (var_n s)"
    if "snd stmt_weightings env s = Inr s'" for env :: "('s, 'z) ext" and s s'
    using that by (auto simp: stmt_weightings_def network_call_def and_then_Inr RESOLUTION_def)
  have 7: "\<exists>r v. generators (var_n s) row = Some r \<and> r col = Some v
           \<and> var_n s' = (var_n s)\<lparr>generators := (generators (var_n s))
                (row \<mapsto> r(col \<mapsto> np_mul rnd v (Some (rnd c))))\<rparr>"
    if "snd (stmt_loc_times rnd row col c) env s = Inr s'"
    for env :: "('s, 'z) ext" and s s' row col c
    using that
    by (auto simp: stmt_loc_times_def network_call_def and_then_Inr dest!: loc_update_effect)
  have 8: "\<exists>r v. generators (var_n s) row = Some r \<and> r col = Some v
           \<and> var_n s' = (var_n s)\<lparr>generators := (generators (var_n s))
                (row \<mapsto> r(col \<mapsto> np_div rnd v (Some (rnd c))))\<rparr>"
    if "snd (stmt_loc_over rnd row col c) env s = Inr s'"
    for env :: "('s, 'z) ext" and s s' row col c
    using that
    by (auto simp: stmt_loc_over_def network_call_def and_then_Inr dest!: loc_update_effect)
  have w6: "\<forall>(env :: ('s, 'z) ext) s s'. snd stmt_weightings env s = Inr s' \<longrightarrow>
        var_n s' = loc_set_all 3 (var_n s)"
    using 6 by blast
  have w7: "\<forall>(env :: ('s, 'z) ext) s s'.
        snd (stmt_loc_times rnd ''load-shedding'' ''p_nom_max'' (2 / 10)) env s = Inr s' \<longrightarrow>
        (\<exists>r v. generators (var_n s) ''load-shedding'' = Some r \<and> r ''p_nom_max'' = Some v
           \<and> var_n s' = (var_n s)\<lparr>generators := (generators (var_n s))
                (''load-shedding'' \<mapsto> r(''p_nom_max'' \<mapsto> np_mul rnd v (Some (rnd (2 / 10)))))\<rparr>)"
    using 7 by blast
  have w8: "\<forall>(env :: ('s, 'z) ext) s s'.
        snd (stmt_loc_over rnd ''load-shedding'' ''marginal_cost_quadratic'' (2 / 10)) env s
          = Inr s' \<longrightarrow>
        (\<exists>r v. generators (var_n s) ''load-shedding'' = Some r
           \<and> r ''marginal_cost_quadratic'' = Some v
           \<and> var_n s' = (var_n s)\<lparr>generators := (generators (var_n s))
                (''load-shedding'' \<mapsto>
                   r(''marginal_cost_quadratic'' \<mapsto> np_div rnd v (Some (rnd (2 / 10)))))\<rparr>)"
    using 8 by blast
  show ?thesis
    by (intro conjI) (rule 1, rule 2, rule 3, rule 4, rule 5, rule w6, rule w7, rule w8)
qed

theorem network_mutations_witness:
  "stmt_figure ''subplots''
     \<in> set (capacity_expansion f64_round @ demand_elasticity f64_round
              :: (nat, unit) statement list)
   \<and> \<not> touches_network (fst (stmt_figure ''subplots'' :: (nat, unit) statement))
   \<and> snd (stmt_figure ''subplots'') calm elastic_state = Inr elastic_state
   \<and> snd (stmt_loc_over f64_round ''load-shedding'' ''marginal_cost_quadratic'' (2 / 10))
       calm elastic_state
     = Inr (elastic_state\<lparr>var_n := elastic_network\<lparr>generators :=
         (generators elastic_network)(''load-shedding'' \<mapsto>
            [''p_nom_max'' \<mapsto> None, ''marginal_cost_quadratic'' \<mapsto> Some 50])\<rparr>\<rparr>)
   \<and> (\<exists>r v. generators (var_n elastic_state) ''load-shedding'' = Some r
         \<and> r ''marginal_cost_quadratic'' = Some v
         \<and> elastic_network\<lparr>generators :=
              (generators elastic_network)(''load-shedding'' \<mapsto>
                 [''p_nom_max'' \<mapsto> None, ''marginal_cost_quadratic'' \<mapsto> Some 50])\<rparr>
           = (var_n elastic_state)\<lparr>generators := (generators (var_n elastic_state))
                (''load-shedding'' \<mapsto>
                   r(''marginal_cost_quadratic'' \<mapsto>
                       np_div f64_round v (Some (f64_round (2 / 10)))))\<rparr>)"
proof -
  note inst = network_mutations [of f64_round, where 's = nat and 'z = unit]
  have m: "stmt_figure ''subplots''
     \<in> set (capacity_expansion f64_round @ demand_elasticity f64_round
              :: (nat, unit) statement list)"
    by (simp add: demand_elasticity_def)
  have t: "\<not> touches_network (fst (stmt_figure ''subplots'' :: (nat, unit) statement))"
    by (simp add: stmt_figure_def)
  have eff: "\<forall>(env :: (nat, unit) ext) s s'.
        snd (stmt_loc_over f64_round ''load-shedding'' ''marginal_cost_quadratic'' (2 / 10)) env s
          = Inr s' \<longrightarrow>
        (\<exists>r v. generators (var_n s) ''load-shedding'' = Some r
           \<and> r ''marginal_cost_quadratic'' = Some v
           \<and> var_n s' = (var_n s)\<lparr>generators := (generators (var_n s))
                (''load-shedding'' \<mapsto>
                   r(''marginal_cost_quadratic'' \<mapsto>
                       np_div f64_round v (Some (f64_round (2 / 10)))))\<rparr>)"
    using inst by blast
  from eff [rule_format, OF loc_over_elastic]
  obtain r v where rv: "generators (var_n elastic_state) ''load-shedding'' = Some r"
    "r ''marginal_cost_quadratic'' = Some v"
    "var_n (elastic_state\<lparr>var_n := elastic_network\<lparr>generators :=
         (generators elastic_network)(''load-shedding'' \<mapsto>
            [''p_nom_max'' \<mapsto> None, ''marginal_cost_quadratic'' \<mapsto> Some 50])\<rparr>\<rparr>)
     = (var_n elastic_state)\<lparr>generators := (generators (var_n elastic_state))
                (''load-shedding'' \<mapsto>
                   r(''marginal_cost_quadratic'' \<mapsto>
                       np_div f64_round v (Some (f64_round (2 / 10)))))\<rparr>"
    by blast
  show ?thesis
    using m t figure_calm loc_over_elastic rv by auto
qed

subsection \<open>How a notebook fails\<close>

text \<open>
  C5, as stated: a run fails exactly when an external call fails. Against a library
  none of whose calls raises, and whose example network has no snapshots, the notebook on
  demand elasticity fails: \<open>get_price_duration\<close> divides by zero.
\<close>

theorem demand_elasticity_fails_without_external_failure:
  "never_fails calm
   \<and> run calm (demand_elasticity f64_round) initial = Inl ZeroDivisionError"
proof -
  let ?pre = "[stmt_model_energy, stmt_remove ''Load'' ''demand'',
             stmt_remove ''Generator'' ''load shedding'',
             stmt_add ''Load'' [''demand'']
               (\<lambda>s. [(''bus'', Inr (Str ''electricity'')), (''p_set'', Inr (Num (Some 100)))]),
             stmt_optimize None,
             stmt_figure ''subplots'']"
  have f: "snd (stmt_plot_price_duration f64_round ''default'') calm
             (initial\<lparr>var_n := still_network\<rparr>) = Inl ZeroDivisionError"
    using price_duration_empty_fails [OF still_network_col, of f64_round]
    by (simp add: stmt_plot_price_duration_def and_then_def)
  have "\<exists>post. (demand_elasticity f64_round :: (nat, unit) statement list)
          = ?pre @ (Report, snd (stmt_plot_price_duration f64_round ''default'')) # post"
    by (simp add: demand_elasticity_def stmt_plot_price_duration_def)
  then obtain post where nb: "(demand_elasticity f64_round :: (nat, unit) statement list)
          = ?pre @ (Report, snd (stmt_plot_price_duration f64_round ''default'')) # post"
    by blast
  have "run calm (?pre @ (Report, snd (stmt_plot_price_duration f64_round ''default'')) # post)
          initial = Inl ZeroDivisionError"
    using run_calm_prefix f
    by (rule run_first_failure
        [where f = "snd (stmt_plot_price_duration f64_round ''default'')"])
  then show ?thesis
    using calm_never_fails unfolding nb by simp
qed

text \<open>
  C5, amended. Nothing catches an exception: in either notebook the run fails as soon as
  a statement fails, with the exception of that statement, and a failing run has such a
  first failing statement. The exception is one that a call into the library, the
  download or the plotting raised, or one that the notebook's own handling of its tables
  raised (ZeroDivisionError, KeyError, AttributeError, ValueError). When \<open>optimize\<close>, a
  download or a statistics accessor raises, its statement fails with that exception,
  unchanged.
\<close>

theorem notebook_failures:
  fixes env :: "('s, 'z) ext"
  assumes "nb = capacity_expansion rnd \<or> nb = demand_elasticity rnd"
  shows "(\<forall>pre t f post s e.
            nb = pre @ (t, f) # post \<and> run env pre s0 = Inr s \<and> f env s = Inl e
            \<longrightarrow> run env nb s0 = Inl e)
       \<and> (\<forall>e. run env nb s0 = Inl e \<longrightarrow>
            (\<exists>pre t f post s.
               nb = pre @ (t, f) # post \<and> run env pre s0 = Inr s \<and> f env s = Inl e)
            \<and> (external_error env e \<or> own_error e))
       \<and> (\<forall>s solver e. optimize env (var_n s) solver = Inl e
            \<longrightarrow> snd (stmt_optimize solver) env s = Inl e)
       \<and> (\<forall>s e. read_csv_costs env costs_url = Inl e
            \<longrightarrow> snd (stmt_costs rnd) env s = Inl e)
       \<and> (\<forall>s e. read_csv_ts env ts_url = Inl e \<longrightarrow> snd stmt_ts env s = Inl e)
       \<and> (\<forall>s name kw rest e. statistics env (var_n s) name kw = Inl e
            \<longrightarrow> snd (stmt_statistics ((name, kw) # rest)) env s = Inl e)
       \<and> (\<forall>s first name e.
            statistics env (var_n s) ''optimal_capacity'' [(''round'', Num (Some 2))] = Inl e
            \<longrightarrow> snd (stmt_capacities first name) env s = Inl e)"
proof -
  have well: "fails_well env st" if "st \<in> set nb" for st
    using that assms capacity_expansion_fails_well demand_elasticity_fails_well by blast
  have a: "run env nb s0 = Inl e"
    if "nb = pre @ (t, f) # post" "run env pre s0 = Inr s" "f env s = Inl e"
    for pre t f post s e
    unfolding that(1) using that(2,3) by (rule run_first_failure)
  have b: "(\<exists>pre t f post s.
               nb = pre @ (t, f) # post \<and> run env pre s0 = Inr s \<and> f env s = Inl e)
            \<and> (external_error env e \<or> own_error e)"
    if "run env nb s0 = Inl e" for e
  proof -
    from run_failure_source [OF that] obtain pre t f post s where
      p: "nb = pre @ (t, f) # post" "run env pre s0 = Inr s" "f env s = Inl e"
      by blast
    have "(t, f) \<in> set nb" using p(1) by simp
    from well [OF this] have "external_error env e \<or> own_error e"
      using p(3) by (auto simp: fails_well_def)
    then show ?thesis using p by blast
  qed
  have c: "snd (stmt_optimize solver) env s = Inl e"
    if "optimize env (var_n s) solver = Inl e" for s solver e
    using that by (simp add: stmt_optimize_def network_call_Inl)
  have d: "snd (stmt_costs rnd) env s = Inl e"
    if "read_csv_costs env costs_url = Inl e" for s e
    using that by (simp add: stmt_costs_def and_then_def)
  have e: "snd stmt_ts env s = Inl e"
    if "read_csv_ts env ts_url = Inl e" for s e
    using that by (simp add: stmt_ts_def and_then_def)
  have f: "snd (stmt_statistics ((name, kw) # rest)) env s = Inl e"
    if "statistics env (var_n s) name kw = Inl e" for s name kw rest e
    using that by (simp add: stmt_statistics_def and_then_def)
  have g: "snd (stmt_capacities first name) env s = Inl e"
    if "statistics env (var_n s) ''optimal_capacity'' [(''round'', Num (Some 2))] = Inl e"
    for s first name e
    using that by (simp add: stmt_capacities_def and_then_def)
  have A: "\<forall>pre t f post s e.
            nb = pre @ (t, f) # post \<and> run env pre s0 = Inr s \<and> f env s = Inl e
            \<longrightarrow> run env nb s0 = Inl e"
    using a by (intro allI impI) (elim conjE)
  have B: "\<forall>e. run env nb s0 = Inl e \<longrightarrow>
            (\<exists>pre t f post s.
               nb = pre @ (t, f) # post \<and> run env pre s0 = Inr s \<and> f env s = Inl e)
            \<and> (external_error env e \<or> own_error e)"
    using b by (intro allI impI)
  have C: "\<forall>s solver e. optimize env (var_n s) solver = Inl e
            \<longrightarrow> snd (stmt_optimize solver) env s = Inl e"
    using c by (intro allI impI)
  have D: "\<forall>s e. read_csv_costs env costs_url = Inl e
            \<longrightarrow> snd (stmt_costs rnd) env s = Inl e"
    using d by (intro allI impI)
  have E: "\<forall>s e. read_csv_ts env ts_url = Inl e \<longrightarrow> snd stmt_ts env s = Inl e"
    using e by (intro allI impI)
  have F: "\<forall>s name kw rest e. statistics env (var_n s) name kw = Inl e
            \<longrightarrow> snd (stmt_statistics ((name, kw) # rest)) env s = Inl e"
    using f by (intro allI impI)
  have G: "\<forall>s first name e.
            statistics env (var_n s) ''optimal_capacity'' [(''round'', Num (Some 2))] = Inl e
            \<longrightarrow> snd (stmt_capacities first name) env s = Inl e"
    using g by (intro allI impI)
  show ?thesis
    by (intro conjI) (rule A, rule B, rule C, rule D, rule E, rule F, rule G)
qed

theorem notebook_failures_witness:
  "((demand_elasticity f64_round :: (nat, unit) statement list) = capacity_expansion f64_round
      \<or> (demand_elasticity f64_round :: (nat, unit) statement list)
          = demand_elasticity f64_round)
   \<and> optimize stormy still_network None = Inl (ExternalError ''infeasible'')
   \<and> external_error stormy (ExternalError ''infeasible'')
   \<and> run stormy (demand_elasticity f64_round) initial = Inl (ExternalError ''infeasible'')"
proof -
  let ?nb = "demand_elasticity f64_round :: (nat, unit) statement list"
  let ?pre = "[stmt_model_energy, stmt_remove ''Load'' ''demand'',
               stmt_remove ''Generator'' ''load shedding'',
               stmt_add ''Load'' [''demand'']
                 (\<lambda>s. [(''bus'', Inr (Str ''electricity'')),
                       (''p_set'', Inr (Num (Some 100)))])] :: (nat, unit) statement list"
  have h: "?nb = capacity_expansion f64_round \<or> ?nb = demand_elasticity f64_round" by simp
  have o: "optimize stormy still_network None = Inl (ExternalError ''infeasible'')"
    by (simp add: stormy_def)
  have x: "external_error stormy (ExternalError ''infeasible'')"
    using o by (rule external_errorI)
  have "\<exists>post. ?nb = ?pre @ (Optimize, snd (stmt_optimize None)) # post"
    by (simp add: demand_elasticity_def stmt_optimize_def)
  then obtain post where nb: "?nb = ?pre @ (Optimize, snd (stmt_optimize None)) # post"
    by blast
  have propagates: "\<forall>pre t f post s e.
            ?nb = pre @ (t, f) # post \<and> run stormy pre initial = Inr s \<and> f stormy s = Inl e
            \<longrightarrow> run stormy ?nb initial = Inl e"
    using notebook_failures [OF h, of stormy initial] by (elim conjE)
  have "run stormy ?nb initial = Inl (ExternalError ''infeasible'')"
    using propagates [rule_format, of ?pre Optimize "snd (stmt_optimize None)" post
        "initial\<lparr>var_n := still_network\<rparr>" "ExternalError ''infeasible''"]
      nb run_stormy_prefix stormy_optimize
    by simp
  then show ?thesis using h o x by blast
qed

end
